theory Spec2Isabelle
  imports Main "HOL-Library.Word"
begin

unbundle bit_operations_syntax

section \<open>MicroBlaze target support of GDB: the data model\<close>

text \<open>
  The development embeds \<^verbatim>\<open>gdb/microblaze-tdep.c\<close>: the prologue analyser
  \<^verbatim>\<open>microblaze_analyze_prologue\<close>, \<^verbatim>\<open>microblaze_skip_prologue\<close>, the two
  return-value functions and the DWARF register map.

  A \<^verbatim>\<open>CORE_ADDR\<close> is an unsigned 64-bit integer, so address arithmetic wraps; a
  \<^verbatim>\<open>gdb_byte\<close> is an unsigned char. The C \<^verbatim>\<open>int\<close>s of the file (register numbers,
  immediates, frame sizes, the 0/1 flags) are HOL integers: the decoder delivers
  register fields of five bits and a sign-extended sixteen-bit immediate, and no
  operation of the file takes such values out of the range of \<^verbatim>\<open>int\<close>.
\<close>

type_synonym CORE_ADDR = "64 word"
type_synonym gdb_byte = "8 word"

text \<open>
  The members of \<^verbatim>\<open>enum microblaze_instr\<close> that the file names; every other
  member is \<open>other_instr\<close>.
\<close>

datatype microblaze_instr =
  add | addi | addik | addk | sw | swi | rtsd | rtid | other_instr

text \<open>
  What \<^verbatim>\<open>microblaze_decode_insn (insn, &rd, &ra, &rb, &imm)\<close> delivers: the
  returned opcode and the four output parameters.
\<close>

record decoded_insn =
  d_op :: microblaze_instr
  d_rd :: int
  d_ra :: int
  d_rb :: int
  d_imm :: int

datatype bfd_endian = BFD_ENDIAN_BIG | BFD_ENDIAN_LITTLE

text \<open>
  The fields of \<^verbatim>\<open>struct microblaze_frame_cache\<close> that the prologue analyser
  reads and writes. \<open>register_offsets\<close> is the array indexed by register number; the
  analyser indexes it with the \<^verbatim>\<open>rd\<close> field of a decoded instruction, one of the 32
  general registers, which lies within the array.
\<close>

record microblaze_frame_cache =
  framesize :: int
  fp_regnum :: int
  frameless_p :: int
  register_offsets :: "int \<Rightarrow> int"

text \<open>
  The collaborators of the file that live elsewhere in GDB, as the debugged target
  presents them:
  \<^item> \<open>target_read_code\<close>: the bytes read at an address, for a length; \<open>None\<close> when
    the call fails (it returns a nonzero status) because the target's memory cannot be
    read there;
  \<^item> \<open>gdbarch_byte_order\<close>: the byte order of the architecture;
  \<^item> \<open>decode_insn\<close>: \<^verbatim>\<open>microblaze_decode_insn\<close> of the opcodes library;
  \<^item> \<open>find_pc_partial_function\<close>: for a pc, whether a function was found and the
    values that the output variables \<^verbatim>\<open>func_addr\<close> and \<^verbatim>\<open>func_end\<close> hold after the call;
  \<^item> \<open>find_pc_line_end\<close>: the field \<^verbatim>\<open>end\<close> of \<^verbatim>\<open>find_pc_line (pc, 0)\<close>.
\<close>

record target =
  target_read_code :: "CORE_ADDR \<Rightarrow> nat \<Rightarrow> gdb_byte list option"
  gdbarch_byte_order :: bfd_endian
  decode_insn :: "32 word \<Rightarrow> decoded_insn"
  find_pc_partial_function :: "CORE_ADDR \<Rightarrow> bool \<times> CORE_ADDR \<times> CORE_ADDR"
  find_pc_line_end :: "CORE_ADDR \<Rightarrow> CORE_ADDR"

subsection \<open>Constants of the headers\<close>

text \<open>
  Modelled from the spec: the header \<^verbatim>\<open>microblaze-tdep.h\<close> and the opcode header
  are not among the sources. The stack pointer is r1 and the first argument register
  is r5 (the comments of the analyser write \<^verbatim>\<open>addi r1, r1, imm\<close> and
  \<^verbatim>\<open>add rd, r5, r0\<close>), the return value starts in r3, a register has four bytes and
  an instruction is one four-byte word.
\<close>

definition REG_SP :: int where
  "REG_SP = 1"

definition MICROBLAZE_SP_REGNUM :: int where
  "MICROBLAZE_SP_REGNUM = 1"

definition MICROBLAZE_FIRST_ARGREG :: int where
  "MICROBLAZE_FIRST_ARGREG = 5"

definition MICROBLAZE_RETVAL_REGNUM :: int where
  "MICROBLAZE_RETVAL_REGNUM = 3"

definition MICROBLAZE_REGISTER_SIZE :: nat where
  "MICROBLAZE_REGISTER_SIZE = 4"

definition INST_WORD_SIZE :: CORE_ADDR where
  "INST_WORD_SIZE = 4"

subsection \<open>The instruction macros\<close>

definition IS_RETURN :: "microblaze_instr \<Rightarrow> bool" where
  "IS_RETURN op = (op = rtsd \<or> op = rtid)"

definition IS_UPDATE_SP :: "microblaze_instr \<Rightarrow> int \<Rightarrow> int \<Rightarrow> bool" where
  "IS_UPDATE_SP op rd ra = ((op = addik \<or> op = addi) \<and> rd = REG_SP \<and> ra = REG_SP)"

definition IS_SPILL_SP :: "microblaze_instr \<Rightarrow> int \<Rightarrow> int \<Rightarrow> bool" where
  "IS_SPILL_SP op rd ra = ((op = swi \<or> op = sw) \<and> rd = REG_SP \<and> ra = REG_SP)"

definition IS_SPILL_REG :: "microblaze_instr \<Rightarrow> int \<Rightarrow> int \<Rightarrow> bool" where
  "IS_SPILL_REG op rd ra = ((op = swi \<or> op = sw) \<and> rd \<noteq> REG_SP \<and> ra = REG_SP)"

definition IS_ALSO_SPILL_REG :: "microblaze_instr \<Rightarrow> int \<Rightarrow> int \<Rightarrow> int \<Rightarrow> bool" where
  "IS_ALSO_SPILL_REG op rd ra rb =
     ((op = swi \<or> op = sw) \<and> rd \<noteq> REG_SP \<and> ra = 0 \<and> rb = REG_SP)"

definition IS_SETUP_FP :: "microblaze_instr \<Rightarrow> int \<Rightarrow> int \<Rightarrow> bool" where
  "IS_SETUP_FP op ra rb = ((op = add \<or> op = addik \<or> op = addk) \<and> ra = REG_SP \<and> rb = 0)"

definition IS_SPILL_REG_FP :: "microblaze_instr \<Rightarrow> int \<Rightarrow> int \<Rightarrow> int \<Rightarrow> bool" where
  "IS_SPILL_REG_FP op rd ra fpregnum =
     ((op = swi \<or> op = sw) \<and> rd \<noteq> REG_SP \<and> ra = fpregnum \<and> ra \<noteq> 0)"

definition IS_SAVE_HIDDEN_PTR :: "microblaze_instr \<Rightarrow> int \<Rightarrow> int \<Rightarrow> int \<Rightarrow> bool" where
  "IS_SAVE_HIDDEN_PTR op rd ra rb =
     ((op = add \<or> op = addik) \<and> ra = MICROBLAZE_FIRST_ARGREG \<and> rb = 0)"

section \<open>Fetching an instruction\<close>

text \<open>
  Modelled from the spec: \<^verbatim>\<open>extract_unsigned_integer\<close> is not among the sources. It
  reads the first \<open>len\<close> bytes of a buffer as one unsigned number in the given byte
  order.
\<close>

definition extract_unsigned_integer :: "gdb_byte list \<Rightarrow> nat \<Rightarrow> bfd_endian \<Rightarrow> 32 word" where
  "extract_unsigned_integer buf len byte_order =
     foldl (\<lambda>acc b. push_bit 8 acc OR ucast b) 0
       (case byte_order of
          BFD_ENDIAN_BIG \<Rightarrow> take len buf
        | BFD_ENDIAN_LITTLE \<Rightarrow> rev (take len buf))"

text \<open>
  \<^verbatim>\<open>microblaze_fetch_instruction\<close>: zero when the four bytes at \<open>pc\<close> cannot be read.
  The \<^verbatim>\<open>unsigned long\<close> it returns is made of four bytes, so it is kept as a 32-bit
  word, and the cast \<^verbatim>\<open>(unsigned) insn\<close> of the analyser is the identity.
\<close>

definition microblaze_fetch_instruction :: "target \<Rightarrow> CORE_ADDR \<Rightarrow> 32 word" where
  "microblaze_fetch_instruction t pc =
     (case target_read_code t pc 4 of
        None \<Rightarrow> 0
      | Some buf \<Rightarrow> extract_unsigned_integer buf 4 (gdbarch_byte_order t))"

section \<open>The prologue analyser\<close>

text \<open>
  The local variables of \<^verbatim>\<open>microblaze_analyze_prologue\<close> that live across the
  iterations of its loop, with the frame cache it fills in.
\<close>

record scan_state =
  cache :: microblaze_frame_cache
  addr :: CORE_ADDR
  prologue_end_addr :: CORE_ADDR
  save_hidden_pointer_found :: int
  non_stack_instruction_found :: int

text \<open>
  The tail of the loop body, reached when no prologue pattern matched: the state after
  it, and whether the loop is left by \<^verbatim>\<open>break\<close>. The second \<^verbatim>\<open>continue\<close> of the
  source (for \<^verbatim>\<open>ctrl_op == 0x2c\<close>) sits in the \<^verbatim>\<open>else\<close> of a test that \<open>0x2c\<close>
  passes, and is kept as written.
\<close>

definition non_prologue_insn :: "32 word \<Rightarrow> scan_state \<Rightarrow> bool \<times> scan_state" where
  "non_prologue_insn insn s =
     (let s1 = (if non_stack_instruction_found s = 0
                then s\<lparr>prologue_end_addr := addr s\<rparr> else s);
          s2 = s1\<lparr>non_stack_instruction_found := 1\<rparr>;
          ctrl_op = drop_bit 26 insn
      in if ctrl_op \<noteq> 0x26 \<and> ctrl_op \<noteq> 0x27 \<and> ctrl_op \<noteq> 0x2d
            \<and> ctrl_op \<noteq> 0x2e \<and> ctrl_op \<noteq> 0x2f
         then (False, s2)
         else if ctrl_op = 0x2c then (False, s2)
         else (True, s2))"

text \<open>
  The flag updates shared by the branches that follow the stack adjustment:
  \<^verbatim>\<open>save_hidden_pointer_found = v; if (!cache->framesize) non_stack_instruction_found = 0;\<close>
\<close>

definition set_flags :: "int \<Rightarrow> scan_state \<Rightarrow> scan_state" where
  "set_flags v s =
     (let s1 = s\<lparr>save_hidden_pointer_found := v\<rparr>
      in if framesize (cache s1) = 0 then s1\<lparr>non_stack_instruction_found := 0\<rparr> else s1)"

definition set_register_offset :: "int \<Rightarrow> int \<Rightarrow> scan_state \<Rightarrow> scan_state" where
  "set_register_offset rd v s =
     s\<lparr>cache := (cache s)\<lparr>register_offsets := (register_offsets (cache s))(rd := v)\<rparr>\<rparr>"

text \<open>
  One iteration of the loop on the instruction at \<open>addr\<close>: the state after it, and
  \<open>True\<close> when the loop is left by \<^verbatim>\<open>break\<close>.
\<close>

definition loop_body :: "target \<Rightarrow> scan_state \<Rightarrow> bool \<times> scan_state" where
  "loop_body t s =
     (let insn = microblaze_fetch_instruction t (addr s);
          d = decode_insn t insn;
          op = d_op d; rd = d_rd d; ra = d_ra d; rb = d_rb d; imm = d_imm d
      in if IS_UPDATE_SP op rd ra then
           (if framesize (cache s) \<noteq> 0 then (True, s)
            else (False, s\<lparr>cache := (cache s)\<lparr>framesize := - imm, frameless_p := 0\<rparr>,
                            save_hidden_pointer_found := 0,
                            non_stack_instruction_found := 0\<rparr>))
         else if IS_SPILL_SP op rd ra then
           (False, set_flags 0 (set_register_offset rd imm s))
         else if IS_SPILL_REG op rd ra then
           (False, set_flags 0 (set_register_offset rd (imm - framesize (cache s)) s))
         else if IS_ALSO_SPILL_REG op rd ra rb then
           (False, set_flags 0 (set_register_offset rd (0 - framesize (cache s)) s))
         else if IS_SETUP_FP op ra rb then
           (False, set_flags 0 (s\<lparr>cache := (cache s)\<lparr>fp_regnum := rd\<rparr>\<rparr>))
         else if IS_SPILL_REG_FP op rd ra (fp_regnum (cache s)) then
           (False, set_flags 0 (set_register_offset rd (imm - framesize (cache s)) s))
         else if IS_SAVE_HIDDEN_PTR op rd ra rb then
           (False, set_flags 1 s)
         else non_prologue_insn insn s)"

text \<open>
  The loop \<^verbatim>\<open>for (addr = func_addr; addr < stop; addr += INST_WORD_SIZE)\<close>, entered
  with \<open>addr\<close> already set. The addition wraps at \<open>2 ^ 64\<close>, so the loop need not
  end; its result is \<open>None\<close> then.
\<close>

partial_function (option) prologue_loop :: "target \<Rightarrow> CORE_ADDR \<Rightarrow> scan_state \<Rightarrow> scan_state option" where
  "prologue_loop t stop s =
     (if addr s < stop then
        (let r = loop_body t s
         in if fst r then Some (snd r)
            else prologue_loop t stop ((snd r)\<lparr>addr := addr (snd r) + INST_WORD_SIZE\<rparr>))
      else Some s)"

text \<open>
  \<^verbatim>\<open>microblaze_analyze_prologue (gdbarch, pc, current_pc, cache)\<close>: the returned
  address and the cache as the call leaves it.
\<close>

definition microblaze_analyze_prologue ::
  "target \<Rightarrow> CORE_ADDR \<Rightarrow> CORE_ADDR \<Rightarrow> microblaze_frame_cache
     \<Rightarrow> (CORE_ADDR \<times> microblaze_frame_cache) option" where
  "microblaze_analyze_prologue t pc current_pc c =
     (let (found, func_addr, func_end) = find_pc_partial_function t pc;
          pc1 = (if func_addr < pc then func_addr else pc)
      in if current_pc < pc1 then Some (current_pc, c)
         else
           let c1 = c\<lparr>framesize := 0, fp_regnum := MICROBLAZE_SP_REGNUM, frameless_p := 1\<rparr>;
               insn = microblaze_fetch_instruction t pc1;
               d = decode_insn t insn
           in if IS_RETURN (d_op d) then Some (pc1, c1)
              else
                let stop = (if current_pc < func_end then current_pc else func_end)
                in case prologue_loop t stop
                          \<lparr>cache = c1, addr = func_addr, prologue_end_addr = 0,
                           save_hidden_pointer_found = 0, non_stack_instruction_found = 0\<rparr> of
                     None \<Rightarrow> None
                   | Some s \<Rightarrow>
                       Some (if save_hidden_pointer_found s \<noteq> 0
                             then prologue_end_addr s - INST_WORD_SIZE
                             else prologue_end_addr s,
                             cache s))"

text \<open>
  \<^verbatim>\<open>microblaze_skip_prologue (gdbarch, start_pc)\<close>. Its frame cache is a local
  variable that is not initialised; \<open>c\<close> stands for what it holds.
\<close>

definition microblaze_skip_prologue ::
  "target \<Rightarrow> CORE_ADDR \<Rightarrow> microblaze_frame_cache \<Rightarrow> CORE_ADDR option" where
  "microblaze_skip_prologue t start_pc c =
     (let (found, func_start, func_end) = find_pc_partial_function t start_pc;
          start_pc1 =
            (if found then
               (let sal_end = find_pc_line_end t func_start
                in if sal_end < func_end \<and> start_pc \<le> sal_end then sal_end else start_pc)
             else start_pc)
      in case microblaze_analyze_prologue t func_start 0xffffffff c of
           None \<Rightarrow> None
         | Some (ostart_pc, c') \<Rightarrow>
             Some (if ostart_pc > start_pc1 then ostart_pc else start_pc1))"

subsection \<open>Names for the stages of a call\<close>

text \<open>
  The value of the variable \<^verbatim>\<open>pc\<close> once the start of the function is known: the
  address whose instruction is tested for a return, and the function entry of the scan.
\<close>

definition entry_pc :: "target \<Rightarrow> CORE_ADDR \<Rightarrow> CORE_ADDR" where
  "entry_pc t pc =
     (let (found, func_addr, func_end) = find_pc_partial_function t pc
      in if func_addr < pc then func_addr else pc)"

text \<open>The variable \<^verbatim>\<open>stop\<close>: the scan limit.\<close>

definition scan_stop :: "target \<Rightarrow> CORE_ADDR \<Rightarrow> CORE_ADDR \<Rightarrow> CORE_ADDR" where
  "scan_stop t pc current_pc =
     (let (found, func_addr, func_end) = find_pc_partial_function t pc
      in if current_pc < func_end then current_pc else func_end)"

text \<open>The frame cache after the three assignments that initialise it.\<close>

definition init_cache :: "microblaze_frame_cache \<Rightarrow> microblaze_frame_cache" where
  "init_cache c = c\<lparr>framesize := 0, fp_regnum := MICROBLAZE_SP_REGNUM, frameless_p := 1\<rparr>"

text \<open>The state in which the loop is entered.\<close>

definition scan_start :: "target \<Rightarrow> CORE_ADDR \<Rightarrow> microblaze_frame_cache \<Rightarrow> scan_state" where
  "scan_start t pc c =
     (let (found, func_addr, func_end) = find_pc_partial_function t pc
      in \<lparr>cache = init_cache c, addr = func_addr, prologue_end_addr = 0,
          save_hidden_pointer_found = 0, non_stack_instruction_found = 0\<rparr>)"

text \<open>
  The instruction at \<open>a\<close> as the loop body sees it, and the test that none of the
  prologue patterns matches it when the frame pointer is \<open>fp\<close>.
\<close>

definition insn_at :: "target \<Rightarrow> CORE_ADDR \<Rightarrow> decoded_insn" where
  "insn_at t a = decode_insn t (microblaze_fetch_instruction t a)"

definition no_prologue_pattern :: "int \<Rightarrow> decoded_insn \<Rightarrow> bool" where
  "no_prologue_pattern fp d =
     (\<not> IS_UPDATE_SP (d_op d) (d_rd d) (d_ra d)
      \<and> \<not> IS_SPILL_SP (d_op d) (d_rd d) (d_ra d)
      \<and> \<not> IS_SPILL_REG (d_op d) (d_rd d) (d_ra d)
      \<and> \<not> IS_ALSO_SPILL_REG (d_op d) (d_rd d) (d_ra d) (d_rb d)
      \<and> \<not> IS_SETUP_FP (d_op d) (d_ra d) (d_rb d)
      \<and> \<not> IS_SPILL_REG_FP (d_op d) (d_rd d) (d_ra d) fp
      \<and> \<not> IS_SAVE_HIDDEN_PTR (d_op d) (d_rd d) (d_ra d) (d_rb d))"

text \<open>
  The instruction word ends the scan: \<^verbatim>\<open>ctrl_op\<close> is one of the five opcode groups
  after which the loop body reaches its \<^verbatim>\<open>break\<close>.
\<close>

definition ends_scan :: "32 word \<Rightarrow> bool" where
  "ends_scan insn = (drop_bit 26 insn \<in> {0x26, 0x27, 0x2d, 0x2e, 0x2f})"

text \<open>
  The state at the head of the next iteration, after an iteration that ended without
  \<^verbatim>\<open>break\<close>: the loop body, then \<^verbatim>\<open>addr += INST_WORD_SIZE\<close>.
\<close>

definition next_iteration :: "target \<Rightarrow> scan_state \<Rightarrow> scan_state" where
  "next_iteration t s =
     (snd (loop_body t s))\<lparr>addr := addr (snd (loop_body t s)) + INST_WORD_SIZE\<rparr>"

text \<open>
  \<open>scan_reaches t stop s s'\<close>: the loop, in state \<open>s\<close> at the head of an iteration,
  comes to the head of an iteration in state \<open>s'\<close> after zero or more iterations that
  end without \<^verbatim>\<open>break\<close>.
\<close>

inductive scan_reaches :: "target \<Rightarrow> CORE_ADDR \<Rightarrow> scan_state \<Rightarrow> scan_state \<Rightarrow> bool"
  for t :: target and stop :: CORE_ADDR where
  here: "scan_reaches t stop s s"
| iteration:
    "scan_reaches t stop s s1 \<Longrightarrow> addr s1 < stop \<Longrightarrow> \<not> fst (loop_body t s1) \<Longrightarrow>
     scan_reaches t stop s (next_iteration t s1)"

text \<open>
  The value of \<^verbatim>\<open>start_pc\<close> in \<^verbatim>\<open>microblaze_skip_prologue\<close> after the line table
  has been asked: the end of the function's first line where the table is trusted, the
  given address otherwise.
\<close>

definition line_table_start :: "target \<Rightarrow> CORE_ADDR \<Rightarrow> CORE_ADDR" where
  "line_table_start t start_pc =
     (let (found, func_start, func_end) = find_pc_partial_function t start_pc
      in if found then
           (let sal_end = find_pc_line_end t func_start
            in if sal_end < func_end \<and> start_pc \<le> sal_end then sal_end else start_pc)
         else start_pc)"

section \<open>Return values\<close>

text \<open>The ways a call of the file can fail.\<close>

datatype gdb_error = Internal_Error | Assertion_Failed | Out_Of_Bounds_Read

text \<open>\<^verbatim>\<open>memcpy (dst + off, src, n)\<close> on a buffer held as a list of bytes.\<close>

definition memcpy :: "gdb_byte list \<Rightarrow> nat \<Rightarrow> gdb_byte list \<Rightarrow> nat \<Rightarrow> gdb_byte list" where
  "memcpy dst off src n = take off dst @ take n src @ drop (off + n) dst"

text \<open>
  Modelled from the spec: the class \<^verbatim>\<open>regcache\<close> is not among the sources; the spec
  gives it as the capability to read and write registers. The register cache, as far as
  the two return-value functions use it, holds the raw bytes of each register.
  \<^verbatim>\<open>cooked_read (regnum, buf)\<close> copies the register's \<open>MICROBLAZE_REGISTER_SIZE\<close>
  bytes to the buffer position it is given, and \<^verbatim>\<open>cooked_write (regnum, buf)\<close> takes
  as many bytes from there.
\<close>

type_synonym regcache = "int \<Rightarrow> gdb_byte list"

definition cooked_read :: "regcache \<Rightarrow> int \<Rightarrow> gdb_byte list \<Rightarrow> nat \<Rightarrow> gdb_byte list" where
  "cooked_read regs regnum buf off = memcpy buf off (regs regnum) MICROBLAZE_REGISTER_SIZE"

definition cooked_write :: "regcache \<Rightarrow> int \<Rightarrow> gdb_byte list \<Rightarrow> nat \<Rightarrow> regcache" where
  "cooked_write regs regnum buf off =
     regs(regnum := take MICROBLAZE_REGISTER_SIZE (drop off buf))"

text \<open>
  \<^verbatim>\<open>microblaze_extract_return_value\<close>: \<open>len\<close> is \<^verbatim>\<open>type->length ()\<close>, \<open>buf\<close> is
  what the local eight-byte buffer holds on entry, and the result is what the call
  writes to \<^verbatim>\<open>valbuf\<close>.
\<close>

definition microblaze_extract_return_value ::
  "nat \<Rightarrow> regcache \<Rightarrow> gdb_byte list \<Rightarrow> gdb_error + gdb_byte list" where
  "microblaze_extract_return_value len regs buf =
     (if len = 1 then
        Inr (take 1 (drop (MICROBLAZE_REGISTER_SIZE - 1)
                       (cooked_read regs MICROBLAZE_RETVAL_REGNUM buf 0)))
      else if len = 2 then
        Inr (take 2 (drop (MICROBLAZE_REGISTER_SIZE - 2)
                       (cooked_read regs MICROBLAZE_RETVAL_REGNUM buf 0)))
      else if len = 4 \<or> len = 8 then
        (let buf1 = cooked_read regs MICROBLAZE_RETVAL_REGNUM buf 0;
             buf2 = cooked_read regs (MICROBLAZE_RETVAL_REGNUM + 1) buf1 4
         in Inr (take len buf2))
      else Inl Internal_Error)"

text \<open>
  \<^verbatim>\<open>microblaze_store_return_value\<close>: the register cache after the call. \<open>valbuf\<close>
  holds the \<open>len\<close> bytes of the value.
\<close>

definition microblaze_store_return_value ::
  "nat \<Rightarrow> regcache \<Rightarrow> gdb_byte list \<Rightarrow> gdb_error + regcache" where
  "microblaze_store_return_value len regs valbuf =
     (let buf = replicate 8 0
      in if len > 4 then
           (if len \<noteq> 8 then Inl Assertion_Failed
            else
              let buf1 = memcpy buf 0 valbuf 8;
                  regs1 = cooked_write regs (MICROBLAZE_RETVAL_REGNUM + 1) buf1 4
              in Inr (cooked_write regs1 MICROBLAZE_RETVAL_REGNUM buf1 0))
         else
           (let buf1 = memcpy buf (4 - len) valbuf len
            in Inr (cooked_write regs MICROBLAZE_RETVAL_REGNUM buf1 0)))"

section \<open>The DWARF register map\<close>

definition dwarf2_to_reg_map :: "int list" where
  "dwarf2_to_reg_map =
     [0, 1, 2, 3,
      4, 5, 6, 7,
      8, 9, 10, 11,
      12, 13, 14, 15,
      16, 17, 18, 19,
      20, 21, 22, 23,
      24, 25, 26, 27,
      28, 29, 30, 31,
      -1, -1, -1, -1,
      -1, -1, -1, -1,
      -1, -1, -1, -1,
      -1, -1, -1, -1,
      -1, -1, -1, -1,
      -1, -1, -1, -1,
      -1, -1, -1, -1,
      -1, -1, -1, -1,
      -1, -1, -1, 33,
      -1, -1, -1, -1,
      -1, -1, -1, -1,
      -1, -1]"

text \<open>
  \<^verbatim>\<open>sizeof (dwarf2_to_reg_map)\<close>: the size of the array in bytes, its 78 entries
  times the four bytes of an \<^verbatim>\<open>int\<close>.
\<close>

definition sizeof_int :: nat where
  "sizeof_int = 4"

definition sizeof_dwarf2_to_reg_map :: nat where
  "sizeof_dwarf2_to_reg_map = length dwarf2_to_reg_map * sizeof_int"

text \<open>
  \<^verbatim>\<open>microblaze_dwarf2_reg_to_regnum\<close>. The bound of the test is the size in bytes; a
  read of \<^verbatim>\<open>dwarf2_to_reg_map[reg]\<close> past the last entry of the array is the error
  \<open>Out_Of_Bounds_Read\<close>.
\<close>

definition microblaze_dwarf2_reg_to_regnum :: "int \<Rightarrow> gdb_error + int" where
  "microblaze_dwarf2_reg_to_regnum reg =
     (if reg \<ge> 0 \<and> nat reg < sizeof_dwarf2_to_reg_map then
        (if nat reg < length dwarf2_to_reg_map then Inr (dwarf2_to_reg_map ! nat reg)
         else Inl Out_Of_Bounds_Read)
      else Inr (- 1))"

section \<open>A target to run the functions on\<close>

text \<open>
  Modelled from the spec: \<^verbatim>\<open>microblaze_decode_insn\<close> is not among the sources and
  the spec takes it as given, a total function from a word to an opcode and its operand
  fields. The theorems below hold for every decoder. To run the analyser on concrete
  memory, this decoder reads the fields of a MicroBlaze instruction word (opcode in
  the six upper bits, then rd, ra and rb of five bits each, the immediate in the lower
  sixteen bits) and knows the eight opcodes the analyser names.
\<close>

definition field_decode_insn :: "32 word \<Rightarrow> decoded_insn" where
  "field_decode_insn insn =
     (let opc = drop_bit 26 insn;
          rd = drop_bit 21 insn AND 0x1f;
          ra = drop_bit 16 insn AND 0x1f;
          rb = drop_bit 11 insn AND 0x1f;
          low11 = insn AND 0x7ff
      in \<lparr>d_op =
            (if opc = 0x00 \<and> low11 = 0 then add
             else if opc = 0x04 \<and> low11 = 0 then addk
             else if opc = 0x08 then addi
             else if opc = 0x0c then addik
             else if opc = 0x36 \<and> low11 = 0 then sw
             else if opc = 0x3e then swi
             else if opc = 0x2d \<and> rd = 0x10 then rtsd
             else if opc = 0x2d \<and> rd = 0x11 then rtid
             else other_instr),
          d_rd = uint rd, d_ra = uint ra, d_rb = uint rb,
          d_imm = sint (ucast insn :: 16 word)\<rparr>)"

text \<open>
  Reading code from a memory that holds the given bytes from \<open>base\<close> on and cannot be
  read elsewhere.
\<close>

definition read_code_of :: "CORE_ADDR \<Rightarrow> gdb_byte list \<Rightarrow> CORE_ADDR \<Rightarrow> nat \<Rightarrow> gdb_byte list option" where
  "read_code_of base bytes memaddr len =
     (if base \<le> memaddr \<and> unat (memaddr - base) + len \<le> length bytes
      then Some (take len (drop (unat (memaddr - base)) bytes))
      else None)"

text \<open>
  A big-endian target whose symbol table knows one function, from \<open>lo\<close> to \<open>hi\<close>, and
  whose line table ends the first line of that function at \<open>line_end\<close>.
\<close>

definition one_function_target ::
  "(CORE_ADDR \<Rightarrow> nat \<Rightarrow> gdb_byte list option) \<Rightarrow> CORE_ADDR \<Rightarrow> CORE_ADDR \<Rightarrow> CORE_ADDR
     \<Rightarrow> target" where
  "one_function_target m lo hi line_end =
     \<lparr>target_read_code = m, gdbarch_byte_order = BFD_ENDIAN_BIG,
      decode_insn = field_decode_insn,
      find_pc_partial_function = (\<lambda>pc. (lo \<le> pc \<and> pc < hi, lo, hi)),
      find_pc_line_end = (\<lambda>pc. line_end)\<rparr>"

text \<open>Instruction words, as the bytes a big-endian target holds.\<close>

definition addik_r1_r1_m8 :: "gdb_byte list" where
  "addik_r1_r1_m8 = [0x30, 0x21, 0xFF, 0xF8]"

definition addik_r1_r1_m16 :: "gdb_byte list" where
  "addik_r1_r1_m16 = [0x30, 0x21, 0xFF, 0xF0]"

definition swi_r15_r1_0 :: "gdb_byte list" where
  "swi_r15_r1_0 = [0xF9, 0xE1, 0x00, 0x00]"

definition add_r3_r5_r0 :: "gdb_byte list" where
  "add_r3_r5_r0 = [0x00, 0x65, 0x00, 0x00]"

definition or_r0_r0_r0 :: "gdb_byte list" where
  "or_r0_r0_r0 = [0x80, 0x00, 0x00, 0x00]"

definition rtsd_r15_8 :: "gdb_byte list" where
  "rtsd_r15_8 = [0xB6, 0x0F, 0x00, 0x08]"

definition brlid_r15_64 :: "gdb_byte list" where
  "brlid_r15_64 = [0xB9, 0xF4, 0x00, 0x40]"

text \<open>The function made of the given instructions, at address \<open>0x1000\<close>.\<close>

definition function_at_0x1000 :: "gdb_byte list \<Rightarrow> target" where
  "function_at_0x1000 code =
     one_function_target (read_code_of 0x1000 code) 0x1000 (0x1000 + of_nat (length code)) 0x1004"

definition empty_cache :: microblaze_frame_cache where
  "empty_cache = \<lparr>framesize = 0, fp_regnum = 0, frameless_p = 1, register_offsets = (\<lambda>r. - 1)\<rparr>"

section \<open>Facts about the analyser\<close>

subsection \<open>The calls, stage by stage\<close>

lemma analyze_unfold:
  "microblaze_analyze_prologue t pc current_pc c =
     (if current_pc < entry_pc t pc then Some (current_pc, c)
      else if IS_RETURN (d_op (insn_at t (entry_pc t pc))) then Some (entry_pc t pc, init_cache c)
      else case prologue_loop t (scan_stop t pc current_pc) (scan_start t pc c) of
             None \<Rightarrow> None
           | Some s \<Rightarrow> Some (if save_hidden_pointer_found s \<noteq> 0
                             then prologue_end_addr s - INST_WORD_SIZE
                             else prologue_end_addr s, cache s))"
  by (simp add: microblaze_analyze_prologue_def entry_pc_def scan_stop_def scan_start_def
      init_cache_def insn_at_def Let_def split: prod.splits)

lemma skip_unfold:
  "microblaze_skip_prologue t start_pc c =
     (case microblaze_analyze_prologue t (fst (snd (find_pc_partial_function t start_pc)))
             0xffffffff c of
        None \<Rightarrow> None
      | Some (ostart_pc, c') \<Rightarrow> Some (max ostart_pc (line_table_start t start_pc)))"
  by (auto simp add: microblaze_skip_prologue_def line_table_start_def Let_def max_def
      split: prod.splits option.splits)

lemma scan_stop_le: "scan_stop t pc current_pc \<le> current_pc"
  by (auto simp add: scan_stop_def split: prod.splits)

subsection \<open>One iteration\<close>

lemma loop_body_addr: "addr (snd (loop_body t s)) = addr s"
  by (simp add: loop_body_def non_prologue_insn_def set_flags_def set_register_offset_def Let_def)

lemma loop_body_frameless:
  "frameless_p (cache s) \<noteq> 0 \<longrightarrow> framesize (cache s) = 0 \<Longrightarrow>
   frameless_p (cache (snd (loop_body t s))) \<noteq> 0 \<longrightarrow> framesize (cache (snd (loop_body t s))) = 0"
  by (auto simp add: loop_body_def non_prologue_insn_def set_flags_def set_register_offset_def Let_def)

lemma loop_body_framesize:
  "framesize (cache s) \<noteq> 0 \<Longrightarrow> framesize (cache (snd (loop_body t s))) = framesize (cache s)"
  by (simp add: loop_body_def non_prologue_insn_def set_flags_def set_register_offset_def Let_def)

lemma loop_body_update_sp:
  assumes "IS_UPDATE_SP (d_op (insn_at t (addr s))) (d_rd (insn_at t (addr s))) (d_ra (insn_at t (addr s)))"
    and "framesize (cache s) = 0"
  shows "loop_body t s =
           (False, s\<lparr>cache := (cache s)\<lparr>framesize := - d_imm (insn_at t (addr s)), frameless_p := 0\<rparr>,
                      save_hidden_pointer_found := 0, non_stack_instruction_found := 0\<rparr>)"
  using assms by (simp add: loop_body_def insn_at_def Let_def)

lemma loop_body_second_update_sp:
  assumes "IS_UPDATE_SP (d_op (insn_at t (addr s))) (d_rd (insn_at t (addr s))) (d_ra (insn_at t (addr s)))"
    and "framesize (cache s) \<noteq> 0"
  shows "loop_body t s = (True, s)"
  using assms by (simp add: loop_body_def insn_at_def Let_def)

lemma loop_body_spill_reg:
  assumes "IS_SPILL_REG (d_op (insn_at t (addr s))) (d_rd (insn_at t (addr s))) (d_ra (insn_at t (addr s)))"
  shows "loop_body t s =
           (False, set_flags 0 (set_register_offset (d_rd (insn_at t (addr s)))
                      (d_imm (insn_at t (addr s)) - framesize (cache s)) s))"
proof -
  from assms have
    "\<not> IS_UPDATE_SP (d_op (insn_at t (addr s))) (d_rd (insn_at t (addr s))) (d_ra (insn_at t (addr s)))"
    "\<not> IS_SPILL_SP (d_op (insn_at t (addr s))) (d_rd (insn_at t (addr s))) (d_ra (insn_at t (addr s)))"
    by (auto simp add: IS_SPILL_REG_def IS_UPDATE_SP_def IS_SPILL_SP_def)
  with assms show ?thesis
    by (simp add: loop_body_def insn_at_def Let_def)
qed

lemma loop_body_save_hidden_ptr:
  assumes "IS_SAVE_HIDDEN_PTR (d_op (insn_at t (addr s))) (d_rd (insn_at t (addr s)))
             (d_ra (insn_at t (addr s))) (d_rb (insn_at t (addr s)))"
  shows "loop_body t s = (False, set_flags 1 s)"
proof -
  let ?d = "insn_at t (addr s)"
  from assms have
    "\<not> IS_UPDATE_SP (d_op ?d) (d_rd ?d) (d_ra ?d)"
    "\<not> IS_SPILL_SP (d_op ?d) (d_rd ?d) (d_ra ?d)"
    "\<not> IS_SPILL_REG (d_op ?d) (d_rd ?d) (d_ra ?d)"
    "\<not> IS_ALSO_SPILL_REG (d_op ?d) (d_rd ?d) (d_ra ?d) (d_rb ?d)"
    "\<not> IS_SETUP_FP (d_op ?d) (d_ra ?d) (d_rb ?d)"
    "\<not> IS_SPILL_REG_FP (d_op ?d) (d_rd ?d) (d_ra ?d) (fp_regnum (cache s))"
    by (auto simp add: IS_SAVE_HIDDEN_PTR_def IS_UPDATE_SP_def IS_SPILL_SP_def IS_SPILL_REG_def
        IS_ALSO_SPILL_REG_def IS_SETUP_FP_def IS_SPILL_REG_FP_def REG_SP_def
        MICROBLAZE_FIRST_ARGREG_def)
  with assms show ?thesis
    by (simp add: loop_body_def insn_at_def Let_def)
qed

lemma loop_body_no_pattern:
  assumes "no_prologue_pattern (fp_regnum (cache s)) (insn_at t (addr s))"
  shows "loop_body t s = non_prologue_insn (microblaze_fetch_instruction t (addr s)) s"
  using assms by (simp add: loop_body_def insn_at_def no_prologue_pattern_def Let_def)

lemma non_prologue_insn_eq:
  "non_prologue_insn insn s =
     (ends_scan insn,
      s\<lparr>prologue_end_addr := (if non_stack_instruction_found s = 0 then addr s
                               else prologue_end_addr s),
        non_stack_instruction_found := 1\<rparr>)"
  by (auto simp add: non_prologue_insn_def ends_scan_def Let_def)

lemma loop_body_cases:
  "no_prologue_pattern (fp_regnum (cache s)) (insn_at t (addr s))
   \<or> (prologue_end_addr (snd (loop_body t s)) = prologue_end_addr s
      \<and> (non_stack_instruction_found (snd (loop_body t s)) = 0
         \<or> non_stack_instruction_found (snd (loop_body t s)) = non_stack_instruction_found s))"
  by (auto simp add: loop_body_def insn_at_def no_prologue_pattern_def Let_def set_flags_def
      set_register_offset_def)

lemma loop_body_tentative_pattern:
  assumes "addr s < stop"
    and "non_stack_instruction_found s \<noteq> 0 \<longrightarrow>
           prologue_end_addr s < stop \<and> (\<exists>fp. no_prologue_pattern fp (insn_at t (prologue_end_addr s)))"
  shows "non_stack_instruction_found (snd (loop_body t s)) \<noteq> 0 \<longrightarrow>
           prologue_end_addr (snd (loop_body t s)) < stop
           \<and> (\<exists>fp. no_prologue_pattern fp (insn_at t (prologue_end_addr (snd (loop_body t s)))))"
proof (cases "no_prologue_pattern (fp_regnum (cache s)) (insn_at t (addr s))")
  case True
  with assms show ?thesis
    by (auto simp add: loop_body_no_pattern non_prologue_insn_eq)
next
  case False
  with loop_body_cases [of s t] assms(2) show ?thesis
    by auto
qed

subsection \<open>The loop\<close>

lemma prologue_loop_at_limit: "\<not> addr s < stop \<Longrightarrow> prologue_loop t stop s = Some s"
  by (subst prologue_loop.simps) simp

lemma prologue_loop_break:
  "addr s < stop \<Longrightarrow> fst (loop_body t s) \<Longrightarrow> prologue_loop t stop s = Some (snd (loop_body t s))"
  by (subst prologue_loop.simps) (simp add: Let_def)

lemma prologue_loop_continue:
  "addr s < stop \<Longrightarrow> \<not> fst (loop_body t s) \<Longrightarrow>
   prologue_loop t stop s = prologue_loop t stop (next_iteration t s)"
  by (subst prologue_loop.simps) (simp add: Let_def next_iteration_def)

text \<open>
  A property that holds on entry, that every iteration keeps and that does not depend
  on \<open>addr\<close> holds of the state the loop returns.
\<close>

lemma prologue_loop_invariant:
  assumes run: "prologue_loop t stop s = Some s'"
    and init: "I s"
    and body: "\<And>s. I s \<Longrightarrow> addr s < stop \<Longrightarrow> I (snd (loop_body t s))"
    and advance: "\<And>s a. I s \<Longrightarrow> I (s\<lparr>addr := a\<rparr>)"
  shows "I s'"
proof -
  let ?P = "\<lambda>t' stop' s s'. t' = t \<and> stop' = stop \<and> I s \<longrightarrow> I s'"
  have "?P t stop s s'"
  proof (rule prologue_loop.raw_induct [where P = ?P, OF _ run])
    fix loop t' stop' s s'
    assume IH: "\<And>t' stop' s s'. loop t' stop' s = Some s' \<Longrightarrow> ?P t' stop' s s'"
      and unfolded:
        "(if addr s < stop'
          then let r = loop_body t' s
               in if fst r then Some (snd r)
                  else loop t' stop' ((snd r)\<lparr>addr := addr (snd r) + INST_WORD_SIZE\<rparr>)
          else Some s) = Some s'"
    show "?P t' stop' s s'"
    proof (intro impI, elim conjE)
      assume eq: "t' = t" "stop' = stop" and inv: "I s"
      show "I s'"
      proof (cases "addr s < stop")
        case False
        with unfolded eq inv show ?thesis by simp
      next
        case in_range: True
        show ?thesis
        proof (cases "fst (loop_body t s)")
          case True
          with unfolded eq in_range have "s' = snd (loop_body t s)"
            by (simp add: Let_def)
          with body [OF inv in_range] show ?thesis by simp
        next
          case False
          let ?s1 = "(snd (loop_body t s))\<lparr>addr := addr (snd (loop_body t s)) + INST_WORD_SIZE\<rparr>"
          from unfolded eq in_range False have "loop t stop ?s1 = Some s'"
            by (simp add: Let_def)
          moreover have "I ?s1"
            by (rule advance [OF body [OF inv in_range]])
          ultimately show ?thesis
            using IH by blast
        qed
      qed
    qed
  qed
  with init show ?thesis by simp
qed

lemma scan_reaches_loop:
  "scan_reaches t stop s s1 \<Longrightarrow> prologue_loop t stop s = prologue_loop t stop s1"
proof (induction rule: scan_reaches.induct)
  case (here s)
  show ?case ..
next
  case (iteration s s1)
  from iteration.hyps(2,3)
  have "prologue_loop t stop s1 = prologue_loop t stop (next_iteration t s1)"
    by (subst prologue_loop.simps) (simp add: Let_def next_iteration_def)
  with iteration.IH show ?case by simp
qed

lemma scan_reaches_framesize:
  "scan_reaches t stop s s1 \<Longrightarrow> framesize (cache s) \<noteq> 0 \<Longrightarrow>
   framesize (cache s1) = framesize (cache s)"
  by (induction rule: scan_reaches.induct) (simp_all add: loop_body_framesize next_iteration_def)

lemma scan_reaches_first:
  assumes "scan_reaches t stop (next_iteration t s) s'"
    and "addr s < stop" and "\<not> fst (loop_body t s)"
  shows "scan_reaches t stop s s'"
  using assms(1)
proof (induction "next_iteration t s" s' rule: scan_reaches.induct)
  case here
  from assms(2,3) show ?case
    by (rule scan_reaches.iteration [OF scan_reaches.here])
next
  case (iteration s1)
  then show ?case
    by (intro scan_reaches.iteration)
qed

text \<open>
  A loop that ends with \<open>addr\<close> at or past \<open>stop\<close> was left by its condition: every
  iteration ran to its end, none executed \<^verbatim>\<open>break\<close>.
\<close>

lemma prologue_loop_left_at_limit:
  assumes run: "prologue_loop t stop s = Some s'"
    and limit: "\<not> addr s' < stop"
  shows "scan_reaches t stop s s'"
proof -
  let ?P = "\<lambda>t' stop' s s'. t' = t \<and> stop' = stop \<and> \<not> addr s' < stop \<longrightarrow> scan_reaches t stop s s'"
  have "?P t stop s s'"
  proof (rule prologue_loop.raw_induct [where P = ?P, OF _ run])
    fix loop t' stop' s s'
    assume IH: "\<And>t' stop' s s'. loop t' stop' s = Some s' \<Longrightarrow> ?P t' stop' s s'"
      and unfolded:
        "(if addr s < stop'
          then let r = loop_body t' s
               in if fst r then Some (snd r)
                  else loop t' stop' ((snd r)\<lparr>addr := addr (snd r) + INST_WORD_SIZE\<rparr>)
          else Some s) = Some s'"
    show "?P t' stop' s s'"
    proof (intro impI, elim conjE)
      assume eq: "t' = t" "stop' = stop" and at_limit: "\<not> addr s' < stop"
      show "scan_reaches t stop s s'"
      proof (cases "addr s < stop")
        case False
        with unfolded eq show ?thesis by (simp add: scan_reaches.here)
      next
        case in_range: True
        show ?thesis
        proof (cases "fst (loop_body t s)")
          case True
          with unfolded eq in_range have "s' = snd (loop_body t s)"
            by (simp add: Let_def)
          with in_range at_limit show ?thesis
            by (simp add: loop_body_addr)
        next
          case False
          with unfolded eq in_range have "loop t stop (next_iteration t s) = Some s'"
            by (simp add: Let_def next_iteration_def)
          with IH at_limit have "scan_reaches t stop (next_iteration t s) s'"
            by blast
          then show ?thesis
            using in_range False by (rule scan_reaches_first)
        qed
      qed
    qed
  qed
  with limit show ?thesis by simp
qed

text \<open>
  The loop ends when the scan limit leaves room for one more instruction below the top
  of the address space, so that \<open>addr\<close> cannot wrap around before it reaches \<open>stop\<close>.
\<close>

lemma prologue_loop_terminates:
  assumes "stop \<le> 0xFFFFFFFFFFFFFFFC"
  shows "\<exists>s'. prologue_loop t stop s = Some s'"
proof (induction "unat stop - unat (addr s)" arbitrary: s rule: less_induct)
  case less
  show ?case
  proof (cases "addr s < stop")
    case False
    then show ?thesis by (subst prologue_loop.simps) simp
  next
    case in_range: True
    show ?thesis
    proof (cases "fst (loop_body t s)")
      case True
      with in_range show ?thesis by (subst prologue_loop.simps) (simp add: Let_def)
    next
      case False
      let ?s1 = "(snd (loop_body t s))\<lparr>addr := addr (snd (loop_body t s)) + INST_WORD_SIZE\<rparr>"
      have a: "addr ?s1 = addr s + 4"
        by (simp add: loop_body_addr INST_WORD_SIZE_def)
      have "unat (addr s) < unat stop" "unat stop \<le> 18446744073709551612"
        using in_range assms by (simp_all add: word_less_nat_alt word_le_nat_alt)
      then have "unat (addr s + 4) = unat (addr s) + 4"
        by (simp add: unat_word_ariths)
      with a \<open>unat (addr s) < unat stop\<close>
      have "unat stop - unat (addr ?s1) < unat stop - unat (addr s)"
        by simp
      from less.hyps [OF this] obtain s' where "prologue_loop t stop ?s1 = Some s'" ..
      with in_range False show ?thesis
        by (subst prologue_loop.simps) (simp add: Let_def)
    qed
  qed
qed

lemma analyze_prologue_returns:
  assumes "current_pc \<le> 0xFFFFFFFFFFFFFFFC"
  shows "\<exists>pe c'. microblaze_analyze_prologue t pc current_pc c = Some (pe, c')"
proof -
  from scan_stop_le [of t pc current_pc] assms
  have "scan_stop t pc current_pc \<le> 0xFFFFFFFFFFFFFFFC"
    by (rule order_trans)
  from prologue_loop_terminates [OF this] obtain s' where
    "prologue_loop t (scan_stop t pc current_pc) (scan_start t pc c) = Some s'" by blast
  then show ?thesis
    by (simp add: analyze_unfold)
qed

lemma word_room:
  fixes a :: CORE_ADDR
  assumes "a \<le> 0xFFFFFFFFFFFFFFF7"
  shows "a < a + 4" and "a + 4 < a + 8" and "a < a + 8"
proof -
  from assms have "unat a \<le> 18446744073709551607"
    by (simp add: word_le_nat_alt)
  then have "unat (a + 4) = unat a + 4" and "unat (a + 8) = unat a + 8"
    by (simp_all add: unat_word_ariths)
  then show "a < a + 4" and "a + 4 < a + 8" and "a < a + 8"
    by (simp_all add: word_less_nat_alt)
qed

lemma hidden_pointer_then_first_other:
  assumes in_range: "addr s < stop" "addr s + INST_WORD_SIZE < stop"
    and shp: "IS_SAVE_HIDDEN_PTR (d_op (insn_at t (addr s))) (d_rd (insn_at t (addr s)))
                (d_ra (insn_at t (addr s))) (d_rb (insn_at t (addr s)))"
    and clear: "framesize (cache s) = 0 \<or> non_stack_instruction_found s = 0"
    and other: "no_prologue_pattern (fp_regnum (cache s)) (insn_at t (addr s + INST_WORD_SIZE))"
    and ends: "ends_scan (microblaze_fetch_instruction t (addr s + INST_WORD_SIZE))
               \<or> \<not> addr s + INST_WORD_SIZE + INST_WORD_SIZE < stop"
  shows "\<exists>s'. prologue_loop t stop s = Some s' \<and> save_hidden_pointer_found s' = 1
              \<and> prologue_end_addr s' = addr s + INST_WORD_SIZE"
proof -
  define s1 where "s1 = next_iteration t s"
  have b: "loop_body t s = (False, set_flags 1 s)"
    using shp by (rule loop_body_save_hidden_ptr)
  have s1: "addr s1 = addr s + INST_WORD_SIZE" "save_hidden_pointer_found s1 = 1"
    "non_stack_instruction_found s1 = 0" "fp_regnum (cache s1) = fp_regnum (cache s)"
    unfolding s1_def next_iteration_def b using clear
    by (auto simp add: set_flags_def Let_def)
  have step: "prologue_loop t stop s = prologue_loop t stop s1"
    unfolding s1_def using in_range(1) by (intro prologue_loop_continue) (simp_all add: b)
  define s2 where "s2 = s1\<lparr>prologue_end_addr := addr s1, non_stack_instruction_found := 1\<rparr>"
  have b1: "loop_body t s1 = (ends_scan (microblaze_fetch_instruction t (addr s1)), s2)"
    using other by (simp add: loop_body_no_pattern non_prologue_insn_eq s1 s2_def)
  show ?thesis
  proof (cases "ends_scan (microblaze_fetch_instruction t (addr s1))")
    case True
    with in_range(2) have "prologue_loop t stop s1 = Some s2"
      by (subst prologue_loop_break) (simp_all add: b1 s1)
    with step show ?thesis by (simp add: s2_def s1)
  next
    case False
    with ends have limit: "\<not> addr s + INST_WORD_SIZE + INST_WORD_SIZE < stop"
      by (simp add: s1)
    have "prologue_loop t stop s1 = prologue_loop t stop (next_iteration t s1)"
      using in_range(2) False by (intro prologue_loop_continue) (simp_all add: b1 s1)
    also have "\<dots> = Some (next_iteration t s1)"
      using limit by (intro prologue_loop_at_limit) (simp add: next_iteration_def b1 s2_def s1)
    finally show ?thesis
      using step by (simp add: next_iteration_def b1 s2_def s1)
  qed
qed

subsection \<open>Running on the example targets\<close>

lemmas target_evals = function_at_0x1000_def one_function_target_def read_code_of_def
  microblaze_fetch_instruction_def extract_unsigned_integer_def field_decode_insn_def
  insn_at_def entry_pc_def scan_stop_def scan_start_def init_cache_def empty_cache_def
  rtsd_r15_8_def or_r0_r0_r0_def addik_r1_r1_m8_def addik_r1_r1_m16_def swi_r15_r1_0_def
  add_r3_r5_r0_def brlid_r15_64_def

lemmas macro_evals = IS_RETURN_def IS_UPDATE_SP_def IS_SPILL_SP_def IS_SPILL_REG_def
  IS_ALSO_SPILL_REG_def IS_SETUP_FP_def IS_SPILL_REG_FP_def IS_SAVE_HIDDEN_PTR_def
  REG_SP_def MICROBLAZE_SP_REGNUM_def MICROBLAZE_FIRST_ARGREG_def INST_WORD_SIZE_def

lemmas body_evals = loop_body_def non_prologue_insn_def set_flags_def set_register_offset_def
  next_iteration_def Let_def

section \<open>The DWARF register map\<close>

lemma length_dwarf2_to_reg_map: "length dwarf2_to_reg_map = 78"
  by (simp add: dwarf2_to_reg_map_def)

lemma dwarf2_reg_outside_byte_size:
  "reg < 0 \<or> 312 \<le> reg \<Longrightarrow> microblaze_dwarf2_reg_to_regnum reg = Inr (- 1)"
  by (auto simp add: microblaze_dwarf2_reg_to_regnum_def sizeof_dwarf2_to_reg_map_def
      length_dwarf2_to_reg_map sizeof_int_def)

lemma dwarf2_reg_past_the_entries:
  "78 \<le> reg \<Longrightarrow> reg < 312 \<Longrightarrow> microblaze_dwarf2_reg_to_regnum reg = Inl Out_Of_Bounds_Read"
  by (auto simp add: microblaze_dwarf2_reg_to_regnum_def sizeof_dwarf2_to_reg_map_def
      length_dwarf2_to_reg_map sizeof_int_def)

text \<open>
  Claim C1 says that every DWARF register number outside the 78 entries of the map, in
  particular every number from 78 on, is mapped to \<open>-1\<close>. The test of the function
  compares the number with the size of the array in bytes, 312, so the numbers 78 to
  311 pass it and the array is read past its last entry: for the number 78 the function
  does not return \<open>-1\<close>, it reads \<^verbatim>\<open>dwarf2_to_reg_map[78]\<close>.
\<close>

theorem dwarf2_reg_78_reads_past_the_map:
  "microblaze_dwarf2_reg_to_regnum 78 = Inl Out_Of_Bounds_Read"
  by (simp add: microblaze_dwarf2_reg_to_regnum_def sizeof_dwarf2_to_reg_map_def
      length_dwarf2_to_reg_map sizeof_int_def)

section \<open>The prologue scan\<close>

subsection \<open>A scan that runs to the scan limit\<close>

text \<open>
  Claim C2 says that a scan whose loop runs to the scan limit without \<^verbatim>\<open>break\<close>
  returns the final address of the scan. It does not: the function returns
  \<^verbatim>\<open>prologue_end_addr\<close>, which the loop sets only at an instruction that matches no
  prologue pattern. For a function of two \<^verbatim>\<open>or r0, r0, r0\<close> at \<open>0x1000\<close> the loop
  ends with \<open>addr = 0x1008\<close>, and the function returns \<open>0x1000\<close>.
\<close>

theorem scan_to_limit_counterexample:
  "scan_stop (function_at_0x1000 (or_r0_r0_r0 @ or_r0_r0_r0)) 0x1000 0xffffffff = 0x1008
   \<and> prologue_loop (function_at_0x1000 (or_r0_r0_r0 @ or_r0_r0_r0)) 0x1008
        (scan_start (function_at_0x1000 (or_r0_r0_r0 @ or_r0_r0_r0)) 0x1000 empty_cache)
      = Some \<lparr>cache = init_cache empty_cache, addr = 0x1008, prologue_end_addr = 0x1000,
               save_hidden_pointer_found = 0, non_stack_instruction_found = 1\<rparr>
   \<and> microblaze_analyze_prologue (function_at_0x1000 (or_r0_r0_r0 @ or_r0_r0_r0))
        0x1000 0xffffffff empty_cache = Some (0x1000, init_cache empty_cache)
   \<and> (0x1000 :: CORE_ADDR) \<noteq> 0x1008"
  by (simp add: analyze_unfold prologue_loop.simps target_evals macro_evals body_evals)

text \<open>
  Claim C2, amended: when the loop runs to the scan limit without \<^verbatim>\<open>break\<close> and
  \<^verbatim>\<open>non_stack_instruction_found\<close> is set at its end, the call returns the tentative
  address \<^verbatim>\<open>prologue_end_addr\<close>, less one instruction width if
  \<^verbatim>\<open>save_hidden_pointer_found\<close> is set. The tentative address lies below the scan
  limit, hence below the final address, and the instruction there matched no prologue
  pattern. The loop came to its final state through complete iterations.
\<close>

theorem scan_to_limit_returns_tentative_address:
  assumes pass: "\<not> current_pc < entry_pc t pc"
    and noret: "\<not> IS_RETURN (d_op (insn_at t (entry_pc t pc)))"
    and run: "prologue_loop t (scan_stop t pc current_pc) (scan_start t pc c) = Some s'"
    and to_limit: "\<not> addr s' < scan_stop t pc current_pc"
    and seen: "non_stack_instruction_found s' \<noteq> 0"
  shows "microblaze_analyze_prologue t pc current_pc c =
           Some (if save_hidden_pointer_found s' \<noteq> 0 then prologue_end_addr s' - INST_WORD_SIZE
                 else prologue_end_addr s', cache s')
         \<and> prologue_end_addr s' < scan_stop t pc current_pc
         \<and> scan_stop t pc current_pc \<le> addr s'
         \<and> (\<exists>fp. no_prologue_pattern fp (insn_at t (prologue_end_addr s')))
         \<and> scan_reaches t (scan_stop t pc current_pc) (scan_start t pc c) s'"
proof -
  let ?stop = "scan_stop t pc current_pc"
  let ?I = "\<lambda>s. non_stack_instruction_found s \<noteq> 0 \<longrightarrow>
              prologue_end_addr s < ?stop \<and> (\<exists>fp. no_prologue_pattern fp (insn_at t (prologue_end_addr s)))"
  have "?I s'"
  proof (rule prologue_loop_invariant [OF run, where I = ?I])
    show "?I (scan_start t pc c)"
      by (simp add: scan_start_def split: prod.splits)
  next
    fix s :: scan_state assume "?I s" and "addr s < ?stop"
    then show "?I (snd (loop_body t s))"
      by (rule loop_body_tentative_pattern [rotated])
  next
    fix s :: scan_state and a assume "?I s"
    then show "?I (s\<lparr>addr := a\<rparr>)" by simp
  qed
  with seen pass noret run to_limit prologue_loop_left_at_limit [OF run to_limit] show ?thesis
    by (simp add: analyze_unfold)
qed

theorem scan_to_limit_returns_tentative_address_witness:
  "\<not> (0xffffffff :: CORE_ADDR) < entry_pc (function_at_0x1000 (or_r0_r0_r0 @ or_r0_r0_r0)) 0x1000
   \<and> \<not> IS_RETURN (d_op (insn_at (function_at_0x1000 (or_r0_r0_r0 @ or_r0_r0_r0))
          (entry_pc (function_at_0x1000 (or_r0_r0_r0 @ or_r0_r0_r0)) 0x1000)))
   \<and> prologue_loop (function_at_0x1000 (or_r0_r0_r0 @ or_r0_r0_r0))
        (scan_stop (function_at_0x1000 (or_r0_r0_r0 @ or_r0_r0_r0)) 0x1000 0xffffffff)
        (scan_start (function_at_0x1000 (or_r0_r0_r0 @ or_r0_r0_r0)) 0x1000 empty_cache)
      = Some \<lparr>cache = init_cache empty_cache, addr = 0x1008, prologue_end_addr = 0x1000,
               save_hidden_pointer_found = 0, non_stack_instruction_found = 1\<rparr>
   \<and> scan_stop (function_at_0x1000 (or_r0_r0_r0 @ or_r0_r0_r0)) 0x1000 0xffffffff = 0x1008
   \<and> microblaze_analyze_prologue (function_at_0x1000 (or_r0_r0_r0 @ or_r0_r0_r0))
        0x1000 0xffffffff empty_cache = Some (0x1000, init_cache empty_cache)
   \<and> (\<exists>fp. no_prologue_pattern fp
         (insn_at (function_at_0x1000 (or_r0_r0_r0 @ or_r0_r0_r0)) 0x1000))"
proof -
  let ?t = "function_at_0x1000 (or_r0_r0_r0 @ or_r0_r0_r0)"
  let ?s = "\<lparr>cache = init_cache empty_cache, addr = 0x1008, prologue_end_addr = 0x1000,
             save_hidden_pointer_found = 0, non_stack_instruction_found = 1\<rparr>"
  have stop: "scan_stop ?t 0x1000 0xffffffff = 0x1008"
    by (simp add: target_evals)
  have pass: "\<not> (0xffffffff :: CORE_ADDR) < entry_pc ?t 0x1000"
    by (simp add: target_evals)
  have noret: "\<not> IS_RETURN (d_op (insn_at ?t (entry_pc ?t 0x1000)))"
    by (simp add: target_evals macro_evals)
  have run: "prologue_loop ?t (scan_stop ?t 0x1000 0xffffffff) (scan_start ?t 0x1000 empty_cache)
               = Some ?s"
    by (simp add: prologue_loop.simps target_evals macro_evals body_evals)
  have to_limit: "\<not> addr ?s < scan_stop ?t 0x1000 0xffffffff"
    by (simp add: stop)
  have seen: "non_stack_instruction_found ?s \<noteq> 0"
    by simp
  from scan_to_limit_returns_tentative_address [OF pass noret run to_limit seen]
  show ?thesis
    using pass noret run stop by simp
qed

subsection \<open>A second stack adjustment\<close>

text \<open>
  Claim C3: once a stack adjustment has set \<^verbatim>\<open>framesize\<close> (to a value other than
  zero, zero being the value of a frame size not yet set), the scan stops at the next
  stack adjustment it meets, before processing it. Let the scan come from \<open>s0\<close> to a
  state \<open>s1\<close> in which the frame size is set, and from there to a state \<open>s\<close>, below the
  scan limit, whose instruction is a stack adjustment. Then the loop started in \<open>s0\<close>
  returns \<open>s\<close> itself, and the frame size in \<open>s\<close> is the one of \<open>s1\<close>.
\<close>

theorem second_stack_adjust_stops_scan:
  assumes "scan_reaches t stop s0 s1"
    and "framesize (cache s1) \<noteq> 0"
    and "scan_reaches t stop s1 s"
    and "addr s < stop"
    and "IS_UPDATE_SP (d_op (insn_at t (addr s))) (d_rd (insn_at t (addr s)))
           (d_ra (insn_at t (addr s)))"
  shows "prologue_loop t stop s0 = Some s \<and> framesize (cache s) = framesize (cache s1)"
proof -
  have kept: "framesize (cache s) = framesize (cache s1)"
    using assms(3,2) by (rule scan_reaches_framesize)
  with assms(2) have "framesize (cache s) \<noteq> 0" by simp
  with assms(5) have "loop_body t s = (True, s)"
    by (rule loop_body_second_update_sp)
  with assms(4) have "prologue_loop t stop s = Some s"
    by (simp add: prologue_loop_break)
  with scan_reaches_loop [OF assms(1)] scan_reaches_loop [OF assms(3)] kept
  show ?thesis by simp
qed

theorem second_stack_adjust_stops_scan_witness:
  "scan_reaches (function_at_0x1000 (addik_r1_r1_m8 @ swi_r15_r1_0 @ addik_r1_r1_m16 @ or_r0_r0_r0))
      0x1010
      (scan_start (function_at_0x1000 (addik_r1_r1_m8 @ swi_r15_r1_0 @ addik_r1_r1_m16 @ or_r0_r0_r0))
         0x1000 empty_cache)
      \<lparr>cache = (init_cache empty_cache)\<lparr>framesize := 8, frameless_p := 0\<rparr>, addr = 0x1004,
        prologue_end_addr = 0, save_hidden_pointer_found = 0, non_stack_instruction_found = 0\<rparr>
   \<and> framesize ((init_cache empty_cache)\<lparr>framesize := 8, frameless_p := 0\<rparr>) \<noteq> 0
   \<and> scan_reaches (function_at_0x1000 (addik_r1_r1_m8 @ swi_r15_r1_0 @ addik_r1_r1_m16 @ or_r0_r0_r0))
      0x1010
      \<lparr>cache = (init_cache empty_cache)\<lparr>framesize := 8, frameless_p := 0\<rparr>, addr = 0x1004,
        prologue_end_addr = 0, save_hidden_pointer_found = 0, non_stack_instruction_found = 0\<rparr>
      \<lparr>cache = (init_cache empty_cache)\<lparr>framesize := 8, frameless_p := 0,
                 register_offsets := (\<lambda>r. - 1)(15 := - 8)\<rparr>, addr = 0x1008,
        prologue_end_addr = 0, save_hidden_pointer_found = 0, non_stack_instruction_found = 0\<rparr>
   \<and> (0x1008 :: CORE_ADDR) < 0x1010
   \<and> IS_UPDATE_SP
        (d_op (insn_at (function_at_0x1000 (addik_r1_r1_m8 @ swi_r15_r1_0 @ addik_r1_r1_m16 @ or_r0_r0_r0)) 0x1008))
        (d_rd (insn_at (function_at_0x1000 (addik_r1_r1_m8 @ swi_r15_r1_0 @ addik_r1_r1_m16 @ or_r0_r0_r0)) 0x1008))
        (d_ra (insn_at (function_at_0x1000 (addik_r1_r1_m8 @ swi_r15_r1_0 @ addik_r1_r1_m16 @ or_r0_r0_r0)) 0x1008))
   \<and> prologue_loop (function_at_0x1000 (addik_r1_r1_m8 @ swi_r15_r1_0 @ addik_r1_r1_m16 @ or_r0_r0_r0))
        0x1010
        (scan_start (function_at_0x1000 (addik_r1_r1_m8 @ swi_r15_r1_0 @ addik_r1_r1_m16 @ or_r0_r0_r0))
           0x1000 empty_cache)
      = Some \<lparr>cache = (init_cache empty_cache)\<lparr>framesize := 8, frameless_p := 0,
                 register_offsets := (\<lambda>r. - 1)(15 := - 8)\<rparr>, addr = 0x1008,
               prologue_end_addr = 0, save_hidden_pointer_found = 0,
               non_stack_instruction_found = 0\<rparr>"
proof -
  let ?t = "function_at_0x1000 (addik_r1_r1_m8 @ swi_r15_r1_0 @ addik_r1_r1_m16 @ or_r0_r0_r0)"
  let ?start = "scan_start ?t 0x1000 empty_cache"
  let ?first = "\<lparr>cache = (init_cache empty_cache)\<lparr>framesize := 8, frameless_p := 0\<rparr>, addr = 0x1004,
        prologue_end_addr = 0, save_hidden_pointer_found = 0, non_stack_instruction_found = 0\<rparr>"
  let ?second = "\<lparr>cache = (init_cache empty_cache)\<lparr>framesize := 8, frameless_p := 0,
                 register_offsets := (\<lambda>r. - 1)(15 := - 8)\<rparr>, addr = 0x1008,
        prologue_end_addr = 0, save_hidden_pointer_found = 0, non_stack_instruction_found = 0\<rparr>"
  have n0: "next_iteration ?t ?start = ?first"
    by (simp add: target_evals macro_evals body_evals)
  have n1: "next_iteration ?t ?first = ?second"
    by (simp add: target_evals macro_evals body_evals)
  have "scan_reaches ?t 0x1010 ?start (next_iteration ?t ?start)"
    by (rule scan_reaches.iteration [OF scan_reaches.here])
       (simp_all add: target_evals macro_evals body_evals)
  then have r0: "scan_reaches ?t 0x1010 ?start ?first"
    by (simp only: n0)
  have "scan_reaches ?t 0x1010 ?first (next_iteration ?t ?first)"
    by (rule scan_reaches.iteration [OF scan_reaches.here])
       (simp_all add: target_evals macro_evals body_evals)
  then have r1: "scan_reaches ?t 0x1010 ?first ?second"
    by (simp only: n1)
  have set: "framesize (cache ?first) \<noteq> 0"
    by simp
  have in_range: "addr ?second < 0x1010"
    by simp
  have adjust: "IS_UPDATE_SP (d_op (insn_at ?t (addr ?second))) (d_rd (insn_at ?t (addr ?second)))
                  (d_ra (insn_at ?t (addr ?second)))"
    by (simp add: target_evals macro_evals)
  from second_stack_adjust_stops_scan [OF r0 set r1 in_range adjust]
  show ?thesis
    using r0 r1 adjust by simp
qed

subsection \<open>A stack adjustment and a spill\<close>

text \<open>
  Claim C4: let the function consist of a stack adjustment with immediate \<open>- N\<close> at its
  entry \<open>func_addr\<close> and, after it, a spill of register \<open>r\<close> with immediate \<open>N - k\<close>; let
  the scan start at the entry and its limit be the end of the second instruction (both
  instructions lying below the top of the address space). Then the call returns a cache
  with \<^verbatim>\<open>framesize\<close> \<open>N\<close>, \<^verbatim>\<open>frameless_p\<close> \<open>0\<close> and the offset \<open>- k\<close> for \<open>r\<close>.
\<close>

theorem stack_adjust_then_spill:
  assumes fn: "find_pc_partial_function t pc = (found, func_addr, func_end)"
    and entry: "func_addr \<le> pc"
    and room: "func_addr \<le> 0xFFFFFFFFFFFFFFF7"
    and limit: "scan_stop t pc current_pc = func_addr + 8"
    and adjust: "IS_UPDATE_SP (d_op (insn_at t func_addr)) (d_rd (insn_at t func_addr))
                   (d_ra (insn_at t func_addr))"
    and adjust_imm: "d_imm (insn_at t func_addr) = - N"
    and spill: "IS_SPILL_REG (d_op (insn_at t (func_addr + 4))) (d_rd (insn_at t (func_addr + 4)))
                  (d_ra (insn_at t (func_addr + 4)))"
    and spill_rd: "d_rd (insn_at t (func_addr + 4)) = r"
    and spill_imm: "d_imm (insn_at t (func_addr + 4)) = N - k"
  shows "\<exists>pe c'. microblaze_analyze_prologue t pc current_pc c = Some (pe, c')
           \<and> framesize c' = N \<and> frameless_p c' = 0 \<and> register_offsets c' r = - k"
proof -
  let ?stop = "scan_stop t pc current_pc"
  let ?s0 = "scan_start t pc c"
  have e: "entry_pc t pc = func_addr"
    using fn entry by (simp add: entry_pc_def)
  have "func_addr < ?stop"
    using word_room(3) [OF room] limit by simp
  with scan_stop_le [of t pc current_pc] have pass: "\<not> current_pc < entry_pc t pc"
    by (simp add: e)
  have noret: "\<not> IS_RETURN (d_op (insn_at t (entry_pc t pc)))"
    using adjust by (auto simp add: e IS_UPDATE_SP_def IS_RETURN_def)
  have s0: "?s0 = \<lparr>cache = init_cache c, addr = func_addr, prologue_end_addr = 0,
                   save_hidden_pointer_found = 0, non_stack_instruction_found = 0\<rparr>"
    using fn by (simp add: scan_start_def)
  define s1 where "s1 = next_iteration t ?s0"
  have b0: "loop_body t ?s0 = (False, ?s0\<lparr>cache := (init_cache c)\<lparr>framesize := N, frameless_p := 0\<rparr>\<rparr>)"
    using adjust adjust_imm by (subst loop_body_update_sp) (simp_all add: s0 init_cache_def)
  have s1: "s1 = \<lparr>cache = (init_cache c)\<lparr>framesize := N, frameless_p := 0\<rparr>, addr = func_addr + 4,
                  prologue_end_addr = 0, save_hidden_pointer_found = 0,
                  non_stack_instruction_found = 0\<rparr>"
    unfolding s1_def next_iteration_def b0 by (simp add: s0 INST_WORD_SIZE_def)
  define s2 where "s2 = next_iteration t s1"
  have b1: "loop_body t s1 = (False, set_flags 0 (set_register_offset r (N - k - N) s1))"
    using spill spill_rd spill_imm by (subst loop_body_spill_reg) (simp_all add: s1)
  have s2: "cache s2 = (init_cache c)\<lparr>framesize := N, frameless_p := 0,
                          register_offsets := (register_offsets c)(r := - k)\<rparr>"
    and a2: "addr s2 = func_addr + 8"
    unfolding s2_def next_iteration_def b1
    by (simp_all add: s1 set_flags_def set_register_offset_def init_cache_def INST_WORD_SIZE_def Let_def)
  have "prologue_loop t ?stop ?s0 = prologue_loop t ?stop s1"
    unfolding s1_def using \<open>func_addr < ?stop\<close>
    by (intro prologue_loop_continue) (simp_all add: b0, simp add: s0)
  also have "\<dots> = prologue_loop t ?stop s2"
    unfolding s2_def using word_room(2) [OF room] limit
    by (intro prologue_loop_continue) (simp_all add: b1, simp add: s1)
  also have "\<dots> = Some s2"
    using limit by (intro prologue_loop_at_limit) (simp add: a2)
  finally have "prologue_loop t ?stop ?s0 = Some s2" .
  with pass noret show ?thesis
    by (simp add: analyze_unfold s2)
qed

theorem stack_adjust_then_spill_witness:
  "find_pc_partial_function (function_at_0x1000 (addik_r1_r1_m8 @ swi_r15_r1_0)) 0x1000
     = (True, 0x1000, 0x1008)
   \<and> (0x1000 :: CORE_ADDR) \<le> 0x1000
   \<and> (0x1000 :: CORE_ADDR) \<le> 0xFFFFFFFFFFFFFFF7
   \<and> scan_stop (function_at_0x1000 (addik_r1_r1_m8 @ swi_r15_r1_0)) 0x1000 0xffffffff = 0x1000 + 8
   \<and> insn_at (function_at_0x1000 (addik_r1_r1_m8 @ swi_r15_r1_0)) 0x1000
       = \<lparr>d_op = addik, d_rd = 1, d_ra = 1, d_rb = 31, d_imm = - 8\<rparr>
   \<and> IS_UPDATE_SP addik 1 1
   \<and> insn_at (function_at_0x1000 (addik_r1_r1_m8 @ swi_r15_r1_0)) 0x1004
       = \<lparr>d_op = swi, d_rd = 15, d_ra = 1, d_rb = 0, d_imm = 8 - 8\<rparr>
   \<and> IS_SPILL_REG swi 15 1
   \<and> microblaze_analyze_prologue (function_at_0x1000 (addik_r1_r1_m8 @ swi_r15_r1_0))
         0x1000 0xffffffff empty_cache
       = Some (0, \<lparr>framesize = 8, fp_regnum = 1, frameless_p = 0,
                   register_offsets = (\<lambda>r. - 1)(15 := - 8)\<rparr>)"
proof -
  let ?t = "function_at_0x1000 (addik_r1_r1_m8 @ swi_r15_r1_0)"
  have fn: "find_pc_partial_function ?t 0x1000 = (True, 0x1000, 0x1008)"
    by (simp add: target_evals)
  have entry: "(0x1000 :: CORE_ADDR) \<le> 0x1000" and room: "(0x1000 :: CORE_ADDR) \<le> 0xFFFFFFFFFFFFFFF7"
    by simp_all
  have limit: "scan_stop ?t 0x1000 0xffffffff = 0x1000 + 8"
    by (simp add: target_evals)
  have i0: "insn_at ?t 0x1000 = \<lparr>d_op = addik, d_rd = 1, d_ra = 1, d_rb = 31, d_imm = - 8\<rparr>"
    by (simp add: target_evals)
  have i1: "insn_at ?t 0x1004 = \<lparr>d_op = swi, d_rd = 15, d_ra = 1, d_rb = 0, d_imm = 8 - 8\<rparr>"
    by (simp add: target_evals)
  have adjust: "IS_UPDATE_SP (d_op (insn_at ?t 0x1000)) (d_rd (insn_at ?t 0x1000))
                  (d_ra (insn_at ?t 0x1000))"
    and adjust_imm: "d_imm (insn_at ?t 0x1000) = - 8"
    by (simp_all add: i0 macro_evals)
  have spill: "IS_SPILL_REG (d_op (insn_at ?t (0x1000 + 4))) (d_rd (insn_at ?t (0x1000 + 4)))
                 (d_ra (insn_at ?t (0x1000 + 4)))"
    and spill_rd: "d_rd (insn_at ?t (0x1000 + 4)) = 15"
    and spill_imm: "d_imm (insn_at ?t (0x1000 + 4)) = 8 - 8"
    by (simp_all add: i1 macro_evals)
  have ev: "microblaze_analyze_prologue ?t 0x1000 0xffffffff empty_cache
              = Some (0, \<lparr>framesize = 8, fp_regnum = 1, frameless_p = 0,
                          register_offsets = (\<lambda>r. - 1)(15 := - 8)\<rparr>)"
    by (simp add: analyze_unfold prologue_loop.simps target_evals macro_evals body_evals)
  from stack_adjust_then_spill [OF fn entry room limit adjust adjust_imm spill spill_rd spill_imm,
      where c = empty_cache]
  show ?thesis
    using fn limit i0 i1 ev by (simp add: macro_evals)
qed

subsection \<open>A return at the function entry\<close>

text \<open>
  Claim C5 says that for any function whose entry instruction is a return the scan
  returns the entry address and a frameless summary. Before it looks at the entry
  instruction, the function compares \<^verbatim>\<open>current_pc\<close> with the entry: when
  \<^verbatim>\<open>current_pc\<close> is below it, the function returns \<^verbatim>\<open>current_pc\<close> and leaves the
  cache as it found it. For a function at \<open>0x1000\<close> that starts with \<^verbatim>\<open>rtsd r15, 8\<close>
  and \<^verbatim>\<open>current_pc = 0x0FF0\<close>, the result is \<open>0x0FF0\<close> with the caller's cache, which
  here has a frame of 24 bytes.
\<close>

theorem return_at_entry_counterexample:
  "IS_RETURN (d_op (insn_at (function_at_0x1000 (rtsd_r15_8 @ or_r0_r0_r0))
      (entry_pc (function_at_0x1000 (rtsd_r15_8 @ or_r0_r0_r0)) 0x1000)))
   \<and> entry_pc (function_at_0x1000 (rtsd_r15_8 @ or_r0_r0_r0)) 0x1000 = 0x1000
   \<and> microblaze_analyze_prologue (function_at_0x1000 (rtsd_r15_8 @ or_r0_r0_r0)) 0x1000 0x0FF0
        \<lparr>framesize = 24, fp_regnum = 19, frameless_p = 0, register_offsets = (\<lambda>r. 4)\<rparr>
      = Some (0x0FF0,
              \<lparr>framesize = 24, fp_regnum = 19, frameless_p = 0, register_offsets = (\<lambda>r. 4)\<rparr>)
   \<and> (0x0FF0 :: CORE_ADDR) \<noteq> 0x1000"
  by (simp add: analyze_unfold target_evals macro_evals)

text \<open>
  Claim C5, amended: for any function whose entry instruction is a return, and any
  \<^verbatim>\<open>current_pc\<close> that is not below the entry, the call returns at once with the entry
  address and with the cache as initialised: \<^verbatim>\<open>frameless_p\<close> is 1, \<^verbatim>\<open>framesize\<close> is
  0, and the register offsets are those the caller passed in, none recorded.
\<close>

theorem return_at_entry:
  assumes "\<not> current_pc < entry_pc t pc"
    and "IS_RETURN (d_op (insn_at t (entry_pc t pc)))"
  shows "microblaze_analyze_prologue t pc current_pc c = Some (entry_pc t pc, init_cache c)
         \<and> frameless_p (init_cache c) = 1 \<and> framesize (init_cache c) = 0
         \<and> register_offsets (init_cache c) = register_offsets c"
  using assms by (simp add: analyze_unfold init_cache_def)

theorem return_at_entry_witness:
  "\<not> (0xffffffff :: CORE_ADDR) < entry_pc (function_at_0x1000 (rtsd_r15_8 @ or_r0_r0_r0)) 0x1000
   \<and> IS_RETURN (d_op (insn_at (function_at_0x1000 (rtsd_r15_8 @ or_r0_r0_r0))
      (entry_pc (function_at_0x1000 (rtsd_r15_8 @ or_r0_r0_r0)) 0x1000)))
   \<and> entry_pc (function_at_0x1000 (rtsd_r15_8 @ or_r0_r0_r0)) 0x1000 = 0x1000
   \<and> microblaze_analyze_prologue (function_at_0x1000 (rtsd_r15_8 @ or_r0_r0_r0)) 0x1000 0xffffffff
        \<lparr>framesize = 24, fp_regnum = 19, frameless_p = 0, register_offsets = (\<lambda>r. 4)\<rparr>
      = Some (0x1000,
              \<lparr>framesize = 0, fp_regnum = 1, frameless_p = 1, register_offsets = (\<lambda>r. 4)\<rparr>)"
proof -
  let ?t = "function_at_0x1000 (rtsd_r15_8 @ or_r0_r0_r0)"
  have e: "entry_pc ?t 0x1000 = 0x1000"
    by (simp add: target_evals)
  have pass: "\<not> (0xffffffff :: CORE_ADDR) < entry_pc ?t 0x1000"
    by (simp add: e)
  have ret: "IS_RETURN (d_op (insn_at ?t (entry_pc ?t 0x1000)))"
    by (simp add: target_evals macro_evals)
  from return_at_entry [OF pass ret,
      of "\<lparr>framesize = 24, fp_regnum = 19, frameless_p = 0, register_offsets = (\<lambda>r. 4)\<rparr>"]
  show ?thesis
    using pass ret by (simp add: e init_cache_def MICROBLAZE_SP_REGNUM_def)
qed

subsection \<open>Skipping the prologue\<close>

text \<open>
  Claim C6: for every start address, \<^verbatim>\<open>microblaze_skip_prologue\<close> returns the later of
  two addresses, the one the line table gives (\<open>line_table_start\<close>) and the one the
  analyser returns for the whole function with \<^verbatim>\<open>current_pc = 0xffffffff\<close>; so it is
  never earlier than the analyser's result. The analyser's call returns, since its scan
  limit is at most \<open>0xffffffff\<close>.
\<close>

theorem skip_prologue_not_before_scan:
  "\<exists>ostart_pc c'.
     microblaze_analyze_prologue t (fst (snd (find_pc_partial_function t start_pc))) 0xffffffff c
       = Some (ostart_pc, c')
     \<and> microblaze_skip_prologue t start_pc c = Some (max ostart_pc (line_table_start t start_pc))
     \<and> ostart_pc \<le> max ostart_pc (line_table_start t start_pc)"
proof -
  have "(0xffffffff :: CORE_ADDR) \<le> 0xFFFFFFFFFFFFFFFC" by simp
  from analyze_prologue_returns [OF this]
  obtain pe c' where
    "microblaze_analyze_prologue t (fst (snd (find_pc_partial_function t start_pc))) 0xffffffff c
       = Some (pe, c')"
    by blast
  then show ?thesis by (simp add: skip_unfold)
qed

theorem skip_prologue_not_before_scan_witness:
  "microblaze_analyze_prologue
       (function_at_0x1000 (addik_r1_r1_m8 @ swi_r15_r1_0 @ or_r0_r0_r0 @ rtsd_r15_8))
       0x1000 0xffffffff empty_cache
     = Some (0x1008, \<lparr>framesize = 8, fp_regnum = 1, frameless_p = 0,
                       register_offsets = (\<lambda>r. - 1)(15 := - 8)\<rparr>)
   \<and> line_table_start
       (function_at_0x1000 (addik_r1_r1_m8 @ swi_r15_r1_0 @ or_r0_r0_r0 @ rtsd_r15_8)) 0x1000
     = 0x1004
   \<and> microblaze_skip_prologue
       (function_at_0x1000 (addik_r1_r1_m8 @ swi_r15_r1_0 @ or_r0_r0_r0 @ rtsd_r15_8))
       0x1000 empty_cache
     = Some 0x1008"
proof -
  let ?t = "function_at_0x1000 (addik_r1_r1_m8 @ swi_r15_r1_0 @ or_r0_r0_r0 @ rtsd_r15_8)"
  have fn: "fst (snd (find_pc_partial_function ?t 0x1000)) = 0x1000"
    by (simp add: target_evals)
  have ev: "microblaze_analyze_prologue ?t 0x1000 0xffffffff empty_cache
              = Some (0x1008, \<lparr>framesize = 8, fp_regnum = 1, frameless_p = 0,
                               register_offsets = (\<lambda>r. - 1)(15 := - 8)\<rparr>)"
    by (simp add: analyze_unfold prologue_loop.simps target_evals macro_evals body_evals)
  have line: "line_table_start ?t 0x1000 = 0x1004"
    by (simp add: line_table_start_def target_evals)
  from skip_prologue_not_before_scan [of ?t "0x1000" empty_cache]
  show ?thesis
    using ev line by (simp add: fn)
qed

subsection \<open>The hidden pointer\<close>

text \<open>
  Claim C7: a scan that ends with \<^verbatim>\<open>save_hidden_pointer_found\<close> set returns an end
  address retracted by one instruction width, so that a hidden-pointer save which is the
  last instruction before the scan limit gives the address one width before its
  successor, its own address: the save is not counted as part of the prologue, as the
  comment at the retraction says. The code retracts \<^verbatim>\<open>prologue_end_addr\<close>, which at
  the scan limit is not the limit but a stale address or the initial zero.
  \<^item> For the function \<^verbatim>\<open>or r0, r0, r0\<close>; \<^verbatim>\<open>add r3, r5, r0\<close> at \<open>0x1000\<close> the scan
    runs to \<open>0x1008\<close> with the flag set; the save is at \<open>0x1004\<close>, and the call returns
    \<open>0x0FFC\<close>, an address below the function.
  \<^item> For the function of the one instruction \<^verbatim>\<open>add r3, r5, r0\<close> at \<open>0x1000\<close> the
    retracted address is \<open>0 - 4\<close>: the call, and \<^verbatim>\<open>microblaze_skip_prologue\<close> with
    it, returns \<open>0xFFFFFFFFFFFFFFFC\<close> instead of \<open>0x1000\<close>.
\<close>

theorem hidden_pointer_save_at_scan_limit:
  "scan_stop (function_at_0x1000 (or_r0_r0_r0 @ add_r3_r5_r0)) 0x1000 0xffffffff = 0x1008
   \<and> insn_at (function_at_0x1000 (or_r0_r0_r0 @ add_r3_r5_r0)) 0x1004
       = \<lparr>d_op = add, d_rd = 3, d_ra = 5, d_rb = 0, d_imm = 0\<rparr>
   \<and> IS_SAVE_HIDDEN_PTR add 3 5 0
   \<and> prologue_loop (function_at_0x1000 (or_r0_r0_r0 @ add_r3_r5_r0)) 0x1008
        (scan_start (function_at_0x1000 (or_r0_r0_r0 @ add_r3_r5_r0)) 0x1000 empty_cache)
      = Some \<lparr>cache = init_cache empty_cache, addr = 0x1008, prologue_end_addr = 0x1000,
               save_hidden_pointer_found = 1, non_stack_instruction_found = 0\<rparr>
   \<and> microblaze_analyze_prologue (function_at_0x1000 (or_r0_r0_r0 @ add_r3_r5_r0))
        0x1000 0xffffffff empty_cache = Some (0x0FFC, init_cache empty_cache)
   \<and> (0x0FFC :: CORE_ADDR) \<noteq> 0x1008 - INST_WORD_SIZE
   \<and> scan_stop (function_at_0x1000 add_r3_r5_r0) 0x1000 0xffffffff = 0x1004
   \<and> prologue_loop (function_at_0x1000 add_r3_r5_r0) 0x1004
        (scan_start (function_at_0x1000 add_r3_r5_r0) 0x1000 empty_cache)
      = Some \<lparr>cache = init_cache empty_cache, addr = 0x1004, prologue_end_addr = 0,
               save_hidden_pointer_found = 1, non_stack_instruction_found = 0\<rparr>
   \<and> microblaze_analyze_prologue (function_at_0x1000 add_r3_r5_r0) 0x1000 0xffffffff empty_cache
      = Some (0xFFFFFFFFFFFFFFFC, init_cache empty_cache)
   \<and> microblaze_skip_prologue (function_at_0x1000 add_r3_r5_r0) 0x1000 empty_cache
      = Some 0xFFFFFFFFFFFFFFFC
   \<and> (0xFFFFFFFFFFFFFFFC :: CORE_ADDR) \<noteq> 0x1004 - INST_WORD_SIZE"
  by (simp add: skip_unfold line_table_start_def analyze_unfold prologue_loop.simps
      target_evals macro_evals body_evals)

text \<open>
  What the retraction does in general. In a call that enters the scan, (1) whenever
  the loop ends with \<^verbatim>\<open>save_hidden_pointer_found\<close> set, the returned address is
  \<^verbatim>\<open>prologue_end_addr\<close> less one instruction width; (2) when the scan comes to a
  hidden-pointer save, with the frame size not yet set or no tentative address pending,
  and the next instruction matches no prologue pattern and is where the scan ends, the
  returned address is the address of the hidden-pointer save.
\<close>

lemma hidden_pointer_retracts_tentative_end:
  assumes pass: "\<not> current_pc < entry_pc t pc"
    and noret: "\<not> IS_RETURN (d_op (insn_at t (entry_pc t pc)))"
  shows "(\<forall>s'. prologue_loop t (scan_stop t pc current_pc) (scan_start t pc c) = Some s'
               \<and> save_hidden_pointer_found s' \<noteq> 0
             \<longrightarrow> microblaze_analyze_prologue t pc current_pc c =
                   Some (prologue_end_addr s' - INST_WORD_SIZE, cache s'))
         \<and> (\<forall>s. scan_reaches t (scan_stop t pc current_pc) (scan_start t pc c) s
               \<and> addr s < scan_stop t pc current_pc
               \<and> addr s + INST_WORD_SIZE < scan_stop t pc current_pc
               \<and> IS_SAVE_HIDDEN_PTR (d_op (insn_at t (addr s))) (d_rd (insn_at t (addr s)))
                    (d_ra (insn_at t (addr s))) (d_rb (insn_at t (addr s)))
               \<and> (framesize (cache s) = 0 \<or> non_stack_instruction_found s = 0)
               \<and> no_prologue_pattern (fp_regnum (cache s)) (insn_at t (addr s + INST_WORD_SIZE))
               \<and> (ends_scan (microblaze_fetch_instruction t (addr s + INST_WORD_SIZE))
                  \<or> \<not> addr s + INST_WORD_SIZE + INST_WORD_SIZE < scan_stop t pc current_pc)
             \<longrightarrow> (\<exists>c'. microblaze_analyze_prologue t pc current_pc c = Some (addr s, c')))"
proof (intro conjI allI impI)
  fix s'
  assume "prologue_loop t (scan_stop t pc current_pc) (scan_start t pc c) = Some s'
          \<and> save_hidden_pointer_found s' \<noteq> 0"
  with pass noret
  show "microblaze_analyze_prologue t pc current_pc c =
          Some (prologue_end_addr s' - INST_WORD_SIZE, cache s')"
    by (simp add: analyze_unfold)
next
  fix s
  let ?stop = "scan_stop t pc current_pc"
  assume a: "scan_reaches t ?stop (scan_start t pc c) s
               \<and> addr s < ?stop
               \<and> addr s + INST_WORD_SIZE < ?stop
               \<and> IS_SAVE_HIDDEN_PTR (d_op (insn_at t (addr s))) (d_rd (insn_at t (addr s)))
                    (d_ra (insn_at t (addr s))) (d_rb (insn_at t (addr s)))
               \<and> (framesize (cache s) = 0 \<or> non_stack_instruction_found s = 0)
               \<and> no_prologue_pattern (fp_regnum (cache s)) (insn_at t (addr s + INST_WORD_SIZE))
               \<and> (ends_scan (microblaze_fetch_instruction t (addr s + INST_WORD_SIZE))
                  \<or> \<not> addr s + INST_WORD_SIZE + INST_WORD_SIZE < ?stop)"
  then obtain s' where "prologue_loop t ?stop s = Some s'"
    and "save_hidden_pointer_found s' = 1" and "prologue_end_addr s' = addr s + INST_WORD_SIZE"
    using hidden_pointer_then_first_other [of s ?stop t] by blast
  moreover from a have "prologue_loop t ?stop (scan_start t pc c) = prologue_loop t ?stop s"
    by (simp add: scan_reaches_loop)
  ultimately show "\<exists>c'. microblaze_analyze_prologue t pc current_pc c = Some (addr s, c')"
    using pass noret by (simp add: analyze_unfold)
qed

lemma hidden_pointer_retracts_tentative_end_example:
  "\<not> (0xffffffff :: CORE_ADDR) < entry_pc (function_at_0x1000 (addik_r1_r1_m8 @ swi_r15_r1_0 @ add_r3_r5_r0 @ brlid_r15_64)) 0x1000
   \<and> \<not> IS_RETURN (d_op (insn_at (function_at_0x1000 (addik_r1_r1_m8 @ swi_r15_r1_0 @ add_r3_r5_r0 @ brlid_r15_64)) (entry_pc (function_at_0x1000 (addik_r1_r1_m8 @ swi_r15_r1_0 @ add_r3_r5_r0 @ brlid_r15_64)) 0x1000)))
   \<and> scan_stop (function_at_0x1000 (addik_r1_r1_m8 @ swi_r15_r1_0 @ add_r3_r5_r0 @ brlid_r15_64)) 0x1000 0xffffffff = 0x1010
   \<and> prologue_loop (function_at_0x1000 (addik_r1_r1_m8 @ swi_r15_r1_0 @ add_r3_r5_r0 @ brlid_r15_64)) 0x1010 (scan_start (function_at_0x1000 (addik_r1_r1_m8 @ swi_r15_r1_0 @ add_r3_r5_r0 @ brlid_r15_64)) 0x1000 empty_cache)
      = Some \<lparr>cache = (init_cache empty_cache)\<lparr>framesize := 8, frameless_p := 0,
                 register_offsets := (\<lambda>r. - 1)(15 := - 8)\<rparr>, addr = 0x100C,
               prologue_end_addr = 0x100C, save_hidden_pointer_found = 1,
               non_stack_instruction_found = 1\<rparr>
   \<and> scan_reaches (function_at_0x1000 (addik_r1_r1_m8 @ swi_r15_r1_0 @ add_r3_r5_r0 @ brlid_r15_64)) 0x1010 (scan_start (function_at_0x1000 (addik_r1_r1_m8 @ swi_r15_r1_0 @ add_r3_r5_r0 @ brlid_r15_64)) 0x1000 empty_cache)
        \<lparr>cache = (init_cache empty_cache)\<lparr>framesize := 8, frameless_p := 0,
                 register_offsets := (\<lambda>r. - 1)(15 := - 8)\<rparr>, addr = 0x1008,
          prologue_end_addr = 0, save_hidden_pointer_found = 0, non_stack_instruction_found = 0\<rparr>
   \<and> insn_at (function_at_0x1000 (addik_r1_r1_m8 @ swi_r15_r1_0 @ add_r3_r5_r0 @ brlid_r15_64)) 0x1008 = \<lparr>d_op = add, d_rd = 3, d_ra = 5, d_rb = 0, d_imm = 0\<rparr>
   \<and> IS_SAVE_HIDDEN_PTR add 3 5 0
   \<and> no_prologue_pattern 1 (insn_at (function_at_0x1000 (addik_r1_r1_m8 @ swi_r15_r1_0 @ add_r3_r5_r0 @ brlid_r15_64)) 0x100C)
   \<and> ends_scan (microblaze_fetch_instruction (function_at_0x1000 (addik_r1_r1_m8 @ swi_r15_r1_0 @ add_r3_r5_r0 @ brlid_r15_64)) 0x100C)
   \<and> microblaze_analyze_prologue (function_at_0x1000 (addik_r1_r1_m8 @ swi_r15_r1_0 @ add_r3_r5_r0 @ brlid_r15_64)) 0x1000 0xffffffff empty_cache
      = Some (0x1008, (init_cache empty_cache)\<lparr>framesize := 8, frameless_p := 0,
                 register_offsets := (\<lambda>r. - 1)(15 := - 8)\<rparr>)"
proof -
  let ?t = "(function_at_0x1000 (addik_r1_r1_m8 @ swi_r15_r1_0 @ add_r3_r5_r0 @ brlid_r15_64))"
  let ?start = "scan_start ?t 0x1000 empty_cache"
  let ?first = "\<lparr>cache = (init_cache empty_cache)\<lparr>framesize := 8, frameless_p := 0\<rparr>, addr = 0x1004,
        prologue_end_addr = 0, save_hidden_pointer_found = 0, non_stack_instruction_found = 0\<rparr>"
  let ?second = "\<lparr>cache = (init_cache empty_cache)\<lparr>framesize := 8, frameless_p := 0,
                 register_offsets := (\<lambda>r. - 1)(15 := - 8)\<rparr>, addr = 0x1008,
        prologue_end_addr = 0, save_hidden_pointer_found = 0, non_stack_instruction_found = 0\<rparr>"
  let ?final = "\<lparr>cache = (init_cache empty_cache)\<lparr>framesize := 8, frameless_p := 0,
                 register_offsets := (\<lambda>r. - 1)(15 := - 8)\<rparr>, addr = 0x100C,
               prologue_end_addr = 0x100C, save_hidden_pointer_found = 1,
               non_stack_instruction_found = 1\<rparr>"
  have stop: "scan_stop ?t 0x1000 0xffffffff = 0x1010"
    by (simp add: target_evals)
  have pass: "\<not> (0xffffffff :: CORE_ADDR) < entry_pc ?t 0x1000"
    by (simp add: target_evals)
  have noret: "\<not> IS_RETURN (d_op (insn_at ?t (entry_pc ?t 0x1000)))"
    by (simp add: target_evals macro_evals)
  have run: "prologue_loop ?t 0x1010 ?start = Some ?final"
    by (simp add: prologue_loop.simps target_evals macro_evals body_evals)
  have n0: "next_iteration ?t ?start = ?first"
    by (simp add: target_evals macro_evals body_evals)
  have n1: "next_iteration ?t ?first = ?second"
    by (simp add: target_evals macro_evals body_evals)
  have "scan_reaches ?t 0x1010 ?start (next_iteration ?t ?start)"
    by (rule scan_reaches.iteration [OF scan_reaches.here])
       (simp_all add: target_evals macro_evals body_evals)
  then have "scan_reaches ?t 0x1010 ?start ?first"
    by (simp only: n0)
  then have "scan_reaches ?t 0x1010 ?start (next_iteration ?t ?first)"
    by (rule scan_reaches.iteration) (simp_all add: target_evals macro_evals body_evals)
  then have reach: "scan_reaches ?t 0x1010 ?start ?second"
    by (simp only: n1)
  have i2: "insn_at ?t 0x1008 = \<lparr>d_op = add, d_rd = 3, d_ra = 5, d_rb = 0, d_imm = 0\<rparr>"
    by (simp add: target_evals)
  have shp: "IS_SAVE_HIDDEN_PTR add 3 5 0"
    by (simp add: macro_evals)
  have other: "no_prologue_pattern 1 (insn_at ?t 0x100C)"
    by (simp add: no_prologue_pattern_def target_evals macro_evals)
  have ends: "ends_scan (microblaze_fetch_instruction ?t 0x100C)"
    by (simp add: ends_scan_def target_evals)
  note inst = hidden_pointer_retracts_tentative_end [OF pass noret, of empty_cache]
  from inst have
    "prologue_loop ?t (scan_stop ?t 0x1000 0xffffffff) ?start = Some ?final
       \<and> save_hidden_pointer_found ?final \<noteq> 0
     \<longrightarrow> microblaze_analyze_prologue ?t 0x1000 0xffffffff empty_cache
           = Some (prologue_end_addr ?final - INST_WORD_SIZE, cache ?final)"
    by blast
  with run stop have result:
    "microblaze_analyze_prologue ?t 0x1000 0xffffffff empty_cache = Some (0x1008, cache ?final)"
    by (simp add: INST_WORD_SIZE_def)
  from inst have
    "scan_reaches ?t (scan_stop ?t 0x1000 0xffffffff) ?start ?second
       \<and> addr ?second < scan_stop ?t 0x1000 0xffffffff
       \<and> addr ?second + INST_WORD_SIZE < scan_stop ?t 0x1000 0xffffffff
       \<and> IS_SAVE_HIDDEN_PTR (d_op (insn_at ?t (addr ?second))) (d_rd (insn_at ?t (addr ?second)))
            (d_ra (insn_at ?t (addr ?second))) (d_rb (insn_at ?t (addr ?second)))
       \<and> (framesize (cache ?second) = 0 \<or> non_stack_instruction_found ?second = 0)
       \<and> no_prologue_pattern (fp_regnum (cache ?second)) (insn_at ?t (addr ?second + INST_WORD_SIZE))
       \<and> (ends_scan (microblaze_fetch_instruction ?t (addr ?second + INST_WORD_SIZE))
          \<or> \<not> addr ?second + INST_WORD_SIZE + INST_WORD_SIZE < scan_stop ?t 0x1000 0xffffffff)
     \<longrightarrow> (\<exists>c'. microblaze_analyze_prologue ?t 0x1000 0xffffffff empty_cache
                 = Some (addr ?second, c'))"
    by blast
  with reach stop i2 shp other ends
  have "\<exists>c'. microblaze_analyze_prologue ?t 0x1000 0xffffffff empty_cache = Some (0x1008, c')"
    by (simp add: INST_WORD_SIZE_def init_cache_def MICROBLAZE_SP_REGNUM_def)
  with pass noret stop run reach i2 shp other ends result show ?thesis
    by simp
qed

section \<open>Return values\<close>

lemma take_4_drop_4:
  assumes "length (valbuf :: gdb_byte list) = 8"
  shows "take 4 valbuf @ take 4 (drop 4 valbuf) = valbuf"
proof -
  from assms have "take 4 (drop 4 valbuf) = drop 4 valbuf"
    by simp
  then show ?thesis
    by simp
qed

text \<open>
  Claim C8: for every value of eight bytes, storing it as a return value and then
  extracting a return value of eight bytes from the registers so written gives the
  eight bytes back. The store puts the first four bytes into the return register r3 and
  the last four into r4; the extraction reads them in that order.
\<close>

theorem store_then_extract_8_bytes:
  assumes "length valbuf = 8" and "length buf = 8"
  shows "microblaze_store_return_value 8 regs valbuf =
           Inr (regs(MICROBLAZE_RETVAL_REGNUM + 1 := drop 4 valbuf,
                     MICROBLAZE_RETVAL_REGNUM := take 4 valbuf))
         \<and> microblaze_extract_return_value 8
             (regs(MICROBLAZE_RETVAL_REGNUM + 1 := drop 4 valbuf,
                   MICROBLAZE_RETVAL_REGNUM := take 4 valbuf)) buf = Inr valbuf"
  using assms take_4_drop_4 [OF assms(1)]
  by (simp add: microblaze_store_return_value_def microblaze_extract_return_value_def
      memcpy_def cooked_write_def cooked_read_def MICROBLAZE_REGISTER_SIZE_def
      MICROBLAZE_RETVAL_REGNUM_def Let_def)

theorem store_then_extract_8_bytes_witness:
  "length [1, 2, 3, 4, 5, 6, 7, 8 :: gdb_byte] = 8
   \<and> length (replicate 8 (0 :: gdb_byte)) = 8
   \<and> microblaze_store_return_value 8 (\<lambda>r. [0, 0, 0, 0]) [1, 2, 3, 4, 5, 6, 7, 8] =
       Inr ((\<lambda>r. [0, 0, 0, 0])(4 := [5, 6, 7, 8], 3 := [1, 2, 3, 4]))
   \<and> microblaze_extract_return_value 8
       ((\<lambda>r. [0, 0, 0, 0])(4 := [5, 6, 7, 8], 3 := [1, 2, 3, 4])) (replicate 8 0) =
       Inr [1, 2, 3, 4, 5, 6, 7, 8]"
  using store_then_extract_8_bytes
    [of "[1, 2, 3, 4, 5, 6, 7, 8]" "replicate 8 0" "\<lambda>r. [0, 0, 0, 0]"]
  by (simp add: MICROBLAZE_RETVAL_REGNUM_def)

section \<open>Unreadable memory\<close>

text \<open>
  Claim C9: where the four bytes of an instruction cannot be read, the fetch yields the
  word zero; and the scan does not abort, it returns an address and a cache, whatever
  the memory holds or refuses. The scan limit is at most \<^verbatim>\<open>current_pc\<close>; it is taken
  to leave room for one instruction below the top of the 64-bit address space, as the
  \<open>0xffffffff\<close> that \<^verbatim>\<open>microblaze_skip_prologue\<close> passes does.
\<close>

theorem failed_fetch_does_not_abort:
  assumes "current_pc \<le> 0xFFFFFFFFFFFFFFFC"
  shows "(target_read_code t a 4 = None \<longrightarrow> microblaze_fetch_instruction t a = 0)
         \<and> (\<exists>pe c'. microblaze_analyze_prologue t pc current_pc c = Some (pe, c'))"
  using analyze_prologue_returns [OF assms] by (simp add: microblaze_fetch_instruction_def)

theorem failed_fetch_does_not_abort_witness:
  "(0xffffffff :: CORE_ADDR) \<le> 0xFFFFFFFFFFFFFFFC
   \<and> target_read_code (one_function_target (\<lambda>a n. None) 0x1000 0x1010 0x1004) 0x1008 4 = None
   \<and> microblaze_fetch_instruction (one_function_target (\<lambda>a n. None) 0x1000 0x1010 0x1004) 0x1008 = 0
   \<and> microblaze_analyze_prologue (one_function_target (\<lambda>a n. None) 0x1000 0x1010 0x1004)
         0x1000 0xffffffff empty_cache = Some (0x1000, init_cache empty_cache)"
proof -
  let ?t = "one_function_target (\<lambda>a n. None) 0x1000 0x1010 0x1004"
  have h: "(0xffffffff :: CORE_ADDR) \<le> 0xFFFFFFFFFFFFFFFC"
    by simp
  have unreadable: "target_read_code ?t 0x1008 4 = None"
    by (simp add: one_function_target_def)
  have ev: "microblaze_analyze_prologue ?t 0x1000 0xffffffff empty_cache
              = Some (0x1000, init_cache empty_cache)"
    by (simp add: analyze_unfold prologue_loop.simps target_evals macro_evals body_evals)
  from failed_fetch_does_not_abort [OF h, of ?t "0x1008" "0x1000" empty_cache]
  show ?thesis
    using h unreadable ev by simp
qed

section \<open>Frameless summaries\<close>

text \<open>
  Claim C10: in the cache that a completed scan leaves, \<^verbatim>\<open>frameless_p\<close> set implies
  \<^verbatim>\<open>framesize\<close> zero. This holds of every call that enters the scan, and also of a
  call that returns before the scan when the cache it was given has the property.
\<close>

theorem frameless_summary_has_no_frame_size:
  assumes "\<not> current_pc < entry_pc t pc \<or> (frameless_p c \<noteq> 0 \<longrightarrow> framesize c = 0)"
    and "microblaze_analyze_prologue t pc current_pc c = Some (pe, c')"
  shows "frameless_p c' \<noteq> 0 \<longrightarrow> framesize c' = 0"
proof (cases "current_pc < entry_pc t pc")
  case True
  with assms show ?thesis by (simp add: analyze_unfold)
next
  case pass: False
  show ?thesis
  proof (cases "IS_RETURN (d_op (insn_at t (entry_pc t pc)))")
    case True
    with pass assms(2) show ?thesis by (auto simp add: analyze_unfold init_cache_def)
  next
    case False
    with pass assms(2) obtain s' where
      run: "prologue_loop t (scan_stop t pc current_pc) (scan_start t pc c) = Some s'"
      and c': "c' = cache s'"
      by (auto simp add: analyze_unfold split: option.splits)
    have "frameless_p (cache s') \<noteq> 0 \<longrightarrow> framesize (cache s') = 0"
      by (rule prologue_loop_invariant [OF run,
            where I = "\<lambda>s. frameless_p (cache s) \<noteq> 0 \<longrightarrow> framesize (cache s) = 0"])
         (simp_all add: scan_start_def init_cache_def loop_body_frameless split: prod.splits)
    with c' show ?thesis by simp
  qed
qed

theorem frameless_summary_has_no_frame_size_witness:
  "\<not> (0xffffffff :: CORE_ADDR) < entry_pc (function_at_0x1000 (or_r0_r0_r0 @ rtsd_r15_8)) 0x1000
   \<and> microblaze_analyze_prologue (function_at_0x1000 (or_r0_r0_r0 @ rtsd_r15_8)) 0x1000 0xffffffff
        \<lparr>framesize = 24, fp_regnum = 19, frameless_p = 0, register_offsets = (\<lambda>r. 4)\<rparr>
      = Some (0x1000,
              \<lparr>framesize = 0, fp_regnum = 1, frameless_p = 1, register_offsets = (\<lambda>r. 4)\<rparr>)
   \<and> frameless_p \<lparr>framesize = 0, fp_regnum = 1, frameless_p = 1, register_offsets = (\<lambda>r. 4 :: int)\<rparr> \<noteq> 0
   \<and> framesize \<lparr>framesize = 0, fp_regnum = 1, frameless_p = 1, register_offsets = (\<lambda>r. 4 :: int)\<rparr> = 0"
proof -
  let ?t = "function_at_0x1000 (or_r0_r0_r0 @ rtsd_r15_8)"
  let ?c = "\<lparr>framesize = 24, fp_regnum = 19, frameless_p = 0, register_offsets = (\<lambda>r. 4)\<rparr>"
  let ?c' = "\<lparr>framesize = 0, fp_regnum = 1, frameless_p = 1, register_offsets = (\<lambda>r. 4 :: int)\<rparr>"
  have pass: "\<not> (0xffffffff :: CORE_ADDR) < entry_pc ?t 0x1000"
    by (simp add: target_evals)
  have ev: "microblaze_analyze_prologue ?t 0x1000 0xffffffff ?c = Some (0x1000, ?c')"
    by (simp add: analyze_unfold prologue_loop.simps target_evals macro_evals body_evals)
  from frameless_summary_has_no_frame_size [OF disjI1 [OF pass] ev]
  show ?thesis
    using pass ev by simp
qed

end
